theory Spec2Isabelle
  imports Main "HOL-Library.AList" "HOL-Library.Char_ord" "HOL-Library.List_Lexorder"
    "HOL-Library.Sublist"
begin

section \<open>Python values\<close>

text \<open>
  The sync engine of Pontoon (\<^verbatim>\<open>pontoon/sync\<close>) is Python on top of the Django ORM.
  An exception is a value of \<open>error\<close>; a function that may raise returns \<open>error + 'a\<close>,
  with \<open>Inl\<close> for the exception. A dict is an association list with distinct keys in
  insertion order: \<open>d[k] = v\<close> is \<open>AList.update k v d\<close>, \<open>del d[k]\<close> is
  \<open>AList.delete k d\<close>, \<open>d.get(k)\<close> is \<open>map_of d k\<close>.
\<close>

datatype error =
    ParseError | TypeError | AttributeError | KeyError | ValueError
  | FieldDoesNotExist | DoesNotExist | OtherError

type_synonym datetime = nat

text \<open>\<open>a or b\<close> on an optional integer and on a string: \<open>None\<close>, \<open>0\<close> and the empty
  string are falsy.\<close>

definition py_or_int :: "int option \<Rightarrow> int \<Rightarrow> int" where
  "py_or_int a b = (case a of None \<Rightarrow> b | Some n \<Rightarrow> if n = 0 then b else n)"

definition py_or_str :: "string \<Rightarrow> string \<Rightarrow> string" where
  "py_or_str a b = (if a = [] then b else a)"

text \<open>\<open>sep.join(xs)\<close> on a list of strings.\<close>

fun str_join :: "string \<Rightarrow> string list \<Rightarrow> string" where
  "str_join sep [] = []"
| "str_join sep [x] = x"
| "str_join sep (x # y # ys) = x @ sep @ str_join sep (y # ys)"

text \<open>\<open>sep.join(v)\<close> where \<open>v\<close> is a list or \<open>None\<close>: \<open>str.join\<close> raises \<open>TypeError\<close>
  on an argument that is not iterable.\<close>

definition join_opt :: "string \<Rightarrow> string list option \<Rightarrow> error + string" where
  "join_opt sep v = (case v of None \<Rightarrow> Inl TypeError | Some xs \<Rightarrow> Inr (str_join sep xs))"

definition newline :: string where
  "newline = [CHR 0x0A]"

text \<open>Iterating a \<open>str\<close> yields its characters, each a string of length one.\<close>

definition str_iter :: "string \<Rightarrow> string list" where
  "str_iter s = map (\<lambda>c. [c]) s"

definition endswith :: "string \<Rightarrow> string \<Rightarrow> bool" where
  "endswith s sfx = (length sfx \<le> length s \<and> drop (length s - length sfx) s = sfx)"

text \<open>\<open>path[:-1] if path.endswith(".pot") else path\<close>\<close>

definition strip_pot :: "string \<Rightarrow> string" where
  "strip_pot path = (if endswith path ''.pot'' then butlast path else path)"

section \<open>Parsed resources\<close>

text \<open>
  A parsed translation as the reference-side code reads it. \<open>group_comments\<close> and
  \<open>resource_comments\<close> are attributes an object may lack (the code asks \<open>hasattr\<close>):
  \<open>None\<close> stands for the missing attribute. \<open>tx_order\<close> is an integer or Python's
  \<open>None\<close>.
\<close>

record SilmeEntity =
  tx_key :: string
  source_string :: string
  source_string_plural :: string
  comments :: "string list"
  group_comments :: "string list option"
  resource_comments :: "string list option"
  tx_source :: string
  tx_order :: "int option"
  tx_context :: string

record SilmeResource =
  res_entities :: "SilmeEntity list"
  res_translations :: "SilmeEntity list"

text \<open>A parsed translation of a target file (\<open>VCSTranslation\<close>): \<open>strings\<close> is the dict
  from plural form (or \<open>None\<close>) to string.\<close>

record VCSTranslation =
  vt_key :: string
  strings :: "(int option \<times> string) list"
  fuzzy :: bool

section \<open>Database rows\<close>

text \<open>
  A model instance carries its primary key, \<open>None\<close> until the row is inserted.
  The user audit columns of \<open>Translation\<close> (\<open>approved_user\<close>, \<open>rejected_user\<close>, ...),
  to which the sync only ever assigns \<open>None\<close>, are left out.
\<close>

record Resource =
  r_id :: "nat option"
  r_project :: "nat option"
  r_path :: string
  r_format :: string
  total_strings :: nat
  r_order :: nat

record Entity =
  e_id :: "nat option"
  e_resource :: "nat option"
  e_string :: string
  string_plural :: string
  e_key :: string
  comment :: string
  e_source :: string
  group_comment :: string
  resource_comment :: string
  e_context :: string
  e_order :: int
  obsolete :: bool
  date_obsoleted :: "datetime option"
  date_created :: datetime

record TranslatedResource =
  tr_resource :: "nat option"
  tr_locale :: nat
  tr_total_strings :: nat

record Translation =
  t_id :: "nat option"
  entity_id :: nat
  locale_id :: nat
  t_string :: string
  plural_form :: "int option"
  t_date :: "datetime option"
  active :: bool
  approved :: bool
  approved_date :: "datetime option"
  unapproved_date :: "datetime option"
  rejected :: bool
  rejected_date :: "datetime option"
  unrejected_date :: "datetime option"
  pretranslated :: bool
  t_fuzzy :: bool

datatype ActionType =
    TRANSLATION_CREATED | TRANSLATION_APPROVED | TRANSLATION_UNREJECTED | TRANSLATION_REJECTED

text \<open>\<open>created_at\<close> is \<open>None\<close> when the constructor is not given the keyword: the column
  is then filled by the model's own default and not by the caller.\<close>

record ActionLog =
  action_type :: ActionType
  created_at :: "datetime option"
  performed_by :: nat
  al_translation :: "nat option"

record db =
  db_resources :: "Resource list"
  db_entities :: "Entity list"
  db_translated_resources :: "TranslatedResource list"
  db_translations :: "Translation list"
  db_changed_entity_locales :: "(nat \<times> nat) list"
  db_action_logs :: "ActionLog list"
  db_locales :: "(nat \<times> string) list"

text \<open>A \<open>ChangedEntityLocale\<close> row is the pair of its entity and locale keys; a \<open>Locale\<close>
  row is its key and its code. A \<open>Checkout\<close> is read for its repository, locale code,
  path and delta.\<close>

record Checkout =
  co_repo :: nat
  co_locale_code :: "string option"
  co_is_source :: bool
  co_path :: string
  co_changed :: "string list"
  co_removed :: "string list"

section \<open>The ORM calls the sync makes\<close>

text \<open>
  \<open>QuerySet.bulk_update(objs, field_names)\<close> validates its arguments before it writes: an
  empty \<open>field_names\<close> raises \<open>ValueError\<close>, an object without primary key raises
  \<open>ValueError\<close>, and a name that is not a field of the model raises
  \<open>FieldDoesNotExist\<close>. It then writes the named columns of each object to the row
  with the object's primary key.
\<close>

definition bulk_update_check :: "string list \<Rightarrow> string list \<Rightarrow> nat option list \<Rightarrow> error + unit" where
  "bulk_update_check model_fields field_names pks =
     (if field_names = [] then Inl ValueError
      else if None \<in> set pks then Inl ValueError
      else if \<not> set field_names \<subseteq> set model_fields then Inl FieldDoesNotExist
      else Inr ())"

text \<open>Modelled from the spec: the columns of \<open>Resource\<close> and \<open>Entity\<close> (the model classes
  of \<^verbatim>\<open>pontoon.base.models\<close> are not among the sources), under the names the sync
  code uses for them.\<close>

definition Resource_fields :: "string list" where
  "Resource_fields = [''id'', ''project'', ''path'', ''format'', ''total_strings'', ''order'']"

definition Entity_fields :: "string list" where
  "Entity_fields = [''id'', ''resource'', ''string'', ''string_plural'', ''key'', ''comment'',
     ''source'', ''group_comment'', ''resource_comment'', ''context'', ''order'', ''obsolete'',
     ''date_obsoleted'', ''date_created'']"

definition set_resource_column :: "Resource \<Rightarrow> string \<Rightarrow> Resource \<Rightarrow> Resource" where
  "set_resource_column obj name row =
     (if name = ''project'' then row\<lparr>r_project := r_project obj\<rparr>
      else if name = ''path'' then row\<lparr>r_path := r_path obj\<rparr>
      else if name = ''format'' then row\<lparr>r_format := r_format obj\<rparr>
      else if name = ''total_strings'' then row\<lparr>total_strings := total_strings obj\<rparr>
      else if name = ''order'' then row\<lparr>r_order := r_order obj\<rparr>
      else row)"

definition write_resource :: "Resource list \<Rightarrow> string list \<Rightarrow> Resource \<Rightarrow> Resource" where
  "write_resource objs field_names row =
     (case find (\<lambda>obj. r_id obj = r_id row) objs of
        None \<Rightarrow> row
      | Some obj \<Rightarrow> fold (set_resource_column obj) field_names row)"

definition bulk_update_resources :: "db \<Rightarrow> Resource list \<Rightarrow> string list \<Rightarrow> error + db" where
  "bulk_update_resources d objs field_names =
     (case bulk_update_check Resource_fields field_names (map r_id objs) of
        Inl e \<Rightarrow> Inl e
      | Inr _ \<Rightarrow> Inr (d\<lparr>db_resources := map (write_resource objs field_names) (db_resources d)\<rparr>))"

definition set_entity_column :: "Entity \<Rightarrow> string \<Rightarrow> Entity \<Rightarrow> Entity" where
  "set_entity_column obj name row =
     (if name = ''resource'' then row\<lparr>e_resource := e_resource obj\<rparr>
      else if name = ''string'' then row\<lparr>e_string := e_string obj\<rparr>
      else if name = ''string_plural'' then row\<lparr>string_plural := string_plural obj\<rparr>
      else if name = ''key'' then row\<lparr>e_key := e_key obj\<rparr>
      else if name = ''comment'' then row\<lparr>comment := comment obj\<rparr>
      else if name = ''source'' then row\<lparr>e_source := e_source obj\<rparr>
      else if name = ''group_comment'' then row\<lparr>group_comment := group_comment obj\<rparr>
      else if name = ''resource_comment'' then row\<lparr>resource_comment := resource_comment obj\<rparr>
      else if name = ''context'' then row\<lparr>e_context := e_context obj\<rparr>
      else if name = ''order'' then row\<lparr>e_order := e_order obj\<rparr>
      else if name = ''obsolete'' then row\<lparr>obsolete := obsolete obj\<rparr>
      else if name = ''date_obsoleted'' then row\<lparr>date_obsoleted := date_obsoleted obj\<rparr>
      else if name = ''date_created'' then row\<lparr>date_created := date_created obj\<rparr>
      else row)"

definition write_entity :: "Entity list \<Rightarrow> string list \<Rightarrow> Entity \<Rightarrow> Entity" where
  "write_entity objs field_names row =
     (case find (\<lambda>obj. e_id obj = e_id row) objs of
        None \<Rightarrow> row
      | Some obj \<Rightarrow> fold (set_entity_column obj) field_names row)"

definition bulk_update_entities :: "db \<Rightarrow> Entity list \<Rightarrow> string list \<Rightarrow> error + db" where
  "bulk_update_entities d objs field_names =
     (case bulk_update_check Entity_fields field_names (map e_id objs) of
        Inl e \<Rightarrow> Inl e
      | Inr _ \<Rightarrow> Inr (d\<lparr>db_entities := map (write_entity objs field_names) (db_entities d)\<rparr>))"

text \<open>\<open>bulk_create\<close> inserts the objects and gives each a primary key that no row of the
  table has: the keys after the largest one in use, in order.\<close>

definition max_id :: "nat option list \<Rightarrow> nat" where
  "max_id ids = fold (\<lambda>i m. case i of None \<Rightarrow> m | Some n \<Rightarrow> max n m) ids 0"

definition fresh_ids :: "nat option list \<Rightarrow> nat \<Rightarrow> nat list" where
  "fresh_ids used n = map (\<lambda>i. Suc (max_id used) + i) [0..<n]"

definition bulk_create_resources :: "db \<Rightarrow> Resource list \<Rightarrow> db \<times> Resource list" where
  "bulk_create_resources d objs =
     (let created = map (\<lambda>(obj, i). obj\<lparr>r_id := Some i\<rparr>)
                        (zip objs (fresh_ids (map r_id (db_resources d)) (length objs)))
      in (d\<lparr>db_resources := db_resources d @ created\<rparr>, created))"

definition bulk_create_entities :: "db \<Rightarrow> Entity list \<Rightarrow> db \<times> Entity list" where
  "bulk_create_entities d objs =
     (let created = map (\<lambda>(obj, i). obj\<lparr>e_id := Some i\<rparr>)
                        (zip objs (fresh_ids (map e_id (db_entities d)) (length objs)))
      in (d\<lparr>db_entities := db_entities d @ created\<rparr>, created))"

section \<open>External collaborators\<close>

text \<open>
  The parsers, the path resolver and \<open>os.path\<close> are outside the sync: they are taken as
  functions. \<open>parse_source path\<close> is \<open>parse(path, locale=source_locale)\<close>,
  \<open>parse_target target ref locale\<close> is \<open>parse(target_path, ref_path, locale)\<close>; either
  returns the exception it raises as \<open>Inl\<close>.
\<close>

record env =
  parse_source :: "string \<Rightarrow> error + SilmeResource"
  parse_target :: "string \<Rightarrow> string \<Rightarrow> nat \<Rightarrow> error + VCSTranslation list"
  relpath :: "string \<Rightarrow> string \<Rightarrow> string"
  path_join :: "string \<Rightarrow> string \<Rightarrow> string"
  splitext :: "string \<Rightarrow> string"
  isfile :: "string \<Rightarrow> bool"
  get_path_format :: "string \<Rightarrow> string"
  ref_root :: string
  target_path :: "string \<Rightarrow> string \<Rightarrow> string option"
  target_locales :: "string \<Rightarrow> string list"
  find_reference :: "string \<Rightarrow> (string \<times> (string \<times> string) list) option"
  parse_android_locale :: "string \<Rightarrow> string option"
  bilingual_extensions :: "string list"
  source_locale :: "nat option"
  sync_user :: "nat option"

section \<open>\<^verbatim>\<open>sync_entities_from_repo.py\<close>\<close>

definition entity_from_source :: "Resource \<Rightarrow> datetime \<Rightarrow> int \<Rightarrow> SilmeEntity \<Rightarrow> error + Entity" where
  "entity_from_source resource now idx tx =
     (case join_opt newline (group_comments tx) of
        Inl e \<Rightarrow> Inl e
      | Inr gc \<Rightarrow>
     (case join_opt newline (resource_comments tx) of
        Inl e \<Rightarrow> Inl e
      | Inr rc \<Rightarrow>
          Inr \<lparr> e_id = None,
                e_resource = r_id resource,
                e_string = source_string tx,
                string_plural = source_string_plural tx,
                e_key = tx_key tx,
                comment = str_join newline (comments tx),
                e_source = tx_source tx,
                group_comment = gc,
                resource_comment = rc,
                e_context = tx_context tx,
                e_order = py_or_int (tx_order tx) idx,
                obsolete = False,
                date_obsoleted = None,
                date_created = now \<rparr>))"

definition entities_same :: "Entity \<Rightarrow> Entity \<Rightarrow> bool" where
  "entities_same a b =
     (e_string a = e_string b
      \<and> string_plural a = string_plural b
      \<and> comment a = comment b
      \<and> e_source a = e_source b
      \<and> group_comment a = group_comment b
      \<and> resource_comment a = resource_comment b
      \<and> e_context a = e_context b)"

text \<open>\<open>project.resources\<close>, and the cascade of a delete of resources (modelled from the
  spec: a resource owns its entities and translated resources, an entity its
  translations).\<close>

definition project_resources :: "db \<Rightarrow> nat \<Rightarrow> Resource list" where
  "project_resources d project = [r \<leftarrow> db_resources d. r_project r = Some project]"

definition delete_resources :: "db \<Rightarrow> Resource list \<Rightarrow> db" where
  "delete_resources d rs =
     (let rids = set (map r_id rs);
          gone = [e \<leftarrow> db_entities d. e_resource e \<in> rids];
          eids = set (map e_id gone)
      in d\<lparr> db_resources := [r \<leftarrow> db_resources d. r_id r \<notin> rids],
             db_entities := [e \<leftarrow> db_entities d. e_resource e \<notin> rids],
             db_translated_resources := [t \<leftarrow> db_translated_resources d. tr_resource t \<notin> rids],
             db_translations := [t \<leftarrow> db_translations d. Some (entity_id t) \<notin> eids] \<rparr>)"

definition remove_resources :: "env \<Rightarrow> db \<Rightarrow> nat \<Rightarrow> string \<Rightarrow> string list \<Rightarrow> db \<times> string list" where
  "remove_resources ev d project rroot remove =
     (if remove = [] then (d, [])
      else
        let removed_paths = map (\<lambda>path. strip_pot (relpath ev path rroot)) remove;
            removed_resources = [r \<leftarrow> project_resources d project. r_path r \<in> set removed_paths];
            removed_paths' = map r_path removed_resources
        in if removed_paths' \<noteq> [] then (delete_resources d removed_resources, removed_paths')
           else (d, removed_paths'))"

text \<open>The first loop of \<open>update_resources\<close>: \<open>updates[cr.path].entities\<close> is an attribute
  access on the parsed resource, or on \<open>None\<close> where the parse had failed.\<close>

fun set_total_strings :: "(string \<times> SilmeResource option) list \<Rightarrow> Resource list \<Rightarrow> error + Resource list" where
  "set_total_strings updates [] = Inr []"
| "set_total_strings updates (cr # crs) =
     (case map_of updates (r_path cr) of
        None \<Rightarrow> Inl KeyError
      | Some None \<Rightarrow> Inl AttributeError
      | Some (Some res) \<Rightarrow>
          (case set_total_strings updates crs of
             Inl e \<Rightarrow> Inl e
           | Inr crs' \<Rightarrow> Inr (cr\<lparr>total_strings := length (res_entities res)\<rparr> # crs')))"

definition changed_resources :: "db \<Rightarrow> nat \<Rightarrow> (string \<times> SilmeResource option) list \<Rightarrow> Resource list" where
  "changed_resources d project updates =
     [r \<leftarrow> project_resources d project. r_path r \<in> set (map fst updates)]"

definition entity_key :: "Entity \<Rightarrow> string" where
  "entity_key e = py_or_str (e_key e) (e_string e)"

definition dict_of :: "('k \<times> 'v) list \<Rightarrow> ('k \<times> 'v) list" where
  "dict_of kvs = fold (\<lambda>(k, v). AList.update k v) kvs []"

definition prev_entities :: "db \<Rightarrow> Resource list \<Rightarrow> ((string \<times> string) \<times> Entity) list" where
  "prev_entities d crs =
     dict_of (concat (map (\<lambda>e. map (\<lambda>r. ((r_path r, entity_key e), e))
                                     [r \<leftarrow> crs. r_id r = e_resource e])
                          [e \<leftarrow> db_entities d. \<not> obsolete e]))"

fun entities_of_resource :: "Resource \<Rightarrow> datetime \<Rightarrow> SilmeEntity list \<Rightarrow> error + (string \<times> Entity) list" where
  "entities_of_resource cr now [] = Inr []"
| "entities_of_resource cr now (tx # txs) =
     (case entity_from_source cr now 0 tx of
        Inl e \<Rightarrow> Inl e
      | Inr ent \<Rightarrow>
          (case entities_of_resource cr now txs of
             Inl e \<Rightarrow> Inl e
           | Inr rest \<Rightarrow> Inr ((r_path cr, ent) # rest)))"

fun source_entities :: "(string \<times> SilmeResource option) list \<Rightarrow> datetime \<Rightarrow> Resource list \<Rightarrow> error + (string \<times> Entity) list" where
  "source_entities updates now [] = Inr []"
| "source_entities updates now (cr # crs) =
     (case map_of updates (r_path cr) of
        None \<Rightarrow> Inl KeyError
      | Some None \<Rightarrow> Inl AttributeError
      | Some (Some res) \<Rightarrow>
          (case entities_of_resource cr now (res_translations res) of
             Inl e \<Rightarrow> Inl e
           | Inr ents \<Rightarrow>
               (case source_entities updates now crs of
                  Inl e \<Rightarrow> Inl e
                | Inr rest \<Rightarrow> Inr (ents @ rest))))"

definition next_entities :: "(string \<times> SilmeResource option) list \<Rightarrow> datetime \<Rightarrow> Resource list \<Rightarrow> error + ((string \<times> string) \<times> Entity) list" where
  "next_entities updates now crs =
     (case source_entities updates now crs of
        Inl e \<Rightarrow> Inl e
      | Inr pes \<Rightarrow> Inr (dict_of (map (\<lambda>(path, entity). ((path, entity_key entity), entity)) pes)))"

definition obsolete_entities :: "((string \<times> string) \<times> Entity) list \<Rightarrow> ((string \<times> string) \<times> Entity) list \<Rightarrow> datetime \<Rightarrow> Entity list" where
  "obsolete_entities prev nxt now =
     map (\<lambda>ent. ent\<lparr>obsolete := True, date_obsoleted := Some now\<rparr>)
         [ent. (key, ent) \<leftarrow> prev, key \<in> set (map fst prev) - set (map fst nxt)]"

definition modified_entities :: "((string \<times> string) \<times> Entity) list \<Rightarrow> ((string \<times> string) \<times> Entity) list \<Rightarrow> Entity list" where
  "modified_entities prev nxt =
     [ent. (key, ent) \<leftarrow> nxt,
           key \<in> set (map fst prev) \<inter> set (map fst nxt)
           \<and> (case map_of prev key of None \<Rightarrow> False | Some p \<Rightarrow> \<not> entities_same ent p)]"

definition added_entities :: "((string \<times> string) \<times> Entity) list \<Rightarrow> ((string \<times> string) \<times> Entity) list \<Rightarrow> Entity list" where
  "added_entities prev nxt =
     [ent. (key, ent) \<leftarrow> nxt, key \<in> set (map fst nxt) - set (map fst prev)]"

text \<open>Lines 79 to 133 of \<open>update_resources\<close>: the entities of the changed resources.\<close>

definition update_entities :: "db \<Rightarrow> Resource list \<Rightarrow> (string \<times> SilmeResource option) list \<Rightarrow> datetime \<Rightarrow> error + db" where
  "update_entities d crs updates now =
     (let prev = prev_entities d crs in
      case next_entities updates now crs of
        Inl e \<Rightarrow> Inl e
      | Inr nxt \<Rightarrow>
     (case bulk_update_entities d (obsolete_entities prev nxt now) [''obsolete'', ''date_obsoleted''] of
        Inl e \<Rightarrow> Inl e
      | Inr d1 \<Rightarrow>
     (case bulk_update_entities d1 (modified_entities prev nxt)
             [''string'', ''string_plural'', ''comment'', ''source'', ''group_comment'',
              ''resource_comment'', ''context''] of
        Inl e \<Rightarrow> Inl e
      | Inr d2 \<Rightarrow> Inr (fst (bulk_create_entities d2 (added_entities prev nxt))))))"

text \<open>\<open>update_resources\<close>. The second argument of the first \<open>bulk_update\<close> is
  \<open>("total_strings")\<close>: a parenthesised string, not a tuple, so the field names are
  its characters.\<close>

definition update_resources :: "db \<Rightarrow> nat \<Rightarrow> (string \<times> SilmeResource option) list \<Rightarrow> datetime \<Rightarrow> error + (db \<times> string list)" where
  "update_resources d project updates now =
     (if updates = [] then Inr (d, [])
      else
        case set_total_strings updates (changed_resources d project updates) of
          Inl e \<Rightarrow> Inl e
        | Inr crs \<Rightarrow>
       (case bulk_update_resources d crs (str_iter ''total_strings'') of
          Inl e \<Rightarrow> Inl e
        | Inr d1 \<Rightarrow>
       (case update_entities d1 crs updates now of
          Inl e \<Rightarrow> Inl e
        | Inr d2 \<Rightarrow> Inr (d2, map r_path (changed_resources d2 project updates)))))"

text \<open>\<open>add_resources\<close>. The \<open>Resource\<close> constructor is given \<open>path\<close>, \<open>format\<close> and
  \<open>total_strings\<close> only: no project, and the model's default order (modelled from the
  spec as \<open>0\<close>, the first position).\<close>

definition new_resources :: "env \<Rightarrow> (string \<times> SilmeResource option) list \<Rightarrow> string list \<Rightarrow> Resource list" where
  "new_resources ev updates changed_paths =
     concat (map (\<lambda>(db_path, res).
        case res of
          None \<Rightarrow> []
        | Some r \<Rightarrow>
            if db_path \<in> set changed_paths then []
            else [\<lparr> r_id = None, r_project = None, r_path = db_path,
                    r_format = get_path_format ev db_path,
                    total_strings = length (res_entities r), r_order = 0 \<rparr>]) updates)"

definition reorder_resources :: "db \<Rightarrow> nat \<Rightarrow> Resource list" where
  "reorder_resources d project =
     map (\<lambda>(idx, r). r\<lparr>r_order := idx\<rparr>) (enumerate 0 (sort_key r_path (project_resources d project)))"

fun enumerate_entities :: "Resource \<Rightarrow> datetime \<Rightarrow> nat \<Rightarrow> SilmeEntity list \<Rightarrow> error + Entity list" where
  "enumerate_entities resource now idx [] = Inr []"
| "enumerate_entities resource now idx (tx # txs) =
     (case entity_from_source resource now (int idx) tx of
        Inl e \<Rightarrow> Inl e
      | Inr ent \<Rightarrow>
          (case enumerate_entities resource now (Suc idx) txs of
             Inl e \<Rightarrow> Inl e
           | Inr rest \<Rightarrow> Inr (ent # rest)))"

fun new_entities :: "(string \<times> SilmeResource option) list \<Rightarrow> datetime \<Rightarrow> Resource list \<Rightarrow> error + Entity list" where
  "new_entities updates now [] = Inr []"
| "new_entities updates now (resource # rs) =
     (case map_of updates (r_path resource) of
        None \<Rightarrow> Inl KeyError
      | Some None \<Rightarrow> Inl AttributeError
      | Some (Some res) \<Rightarrow>
          (case enumerate_entities resource now 0 (res_translations res) of
             Inl e \<Rightarrow> Inl e
           | Inr ents \<Rightarrow>
               (case new_entities updates now rs of
                  Inl e \<Rightarrow> Inl e
                | Inr rest \<Rightarrow> Inr (ents @ rest))))"

definition is_translated_resource :: "env \<Rightarrow> (string \<times> nat) list \<Rightarrow> Resource \<Rightarrow> string \<Rightarrow> bool" where
  "is_translated_resource ev locale_map resource locale_code =
     (if locale_code \<notin> set (map fst locale_map) then False
      else if r_format resource \<in> {''po'', ''xliff''} then
        (case target_path ev (r_path resource) locale_code of
           None \<Rightarrow> False
         | Some tp \<Rightarrow> isfile ev tp)
      else True)"

definition new_translated_resources :: "env \<Rightarrow> (string \<times> nat) list \<Rightarrow> Resource list \<Rightarrow> TranslatedResource list" where
  "new_translated_resources ev locale_map added =
     concat (map (\<lambda>resource.
        concat (map (\<lambda>locale_code.
          if is_translated_resource ev locale_map resource locale_code then
            (case map_of locale_map locale_code of
               None \<Rightarrow> []
             | Some locale \<Rightarrow> [\<lparr> tr_resource = r_id resource, tr_locale = locale,
                                 tr_total_strings = total_strings resource \<rparr>])
          else []) (target_locales ev (r_path resource)))) added)"

definition add_resources :: "env \<Rightarrow> db \<Rightarrow> nat \<Rightarrow> (string \<times> nat) list \<Rightarrow> (string \<times> SilmeResource option) list \<Rightarrow> string list \<Rightarrow> datetime \<Rightarrow> error + (db \<times> string list)" where
  "add_resources ev d project locale_map updates changed_paths now =
     (let added_resources = new_resources ev updates changed_paths in
      if added_resources = [] then Inr (d, [])
      else
        let (d1, created) = bulk_create_resources d added_resources in
        case bulk_update_resources d1 (reorder_resources d1 project) [''order''] of
          Inl e \<Rightarrow> Inl e
        | Inr d2 \<Rightarrow>
       (case new_entities updates now created of
          Inl e \<Rightarrow> Inl e
        | Inr ents \<Rightarrow>
            let d3 = fst (bulk_create_entities d2 ents) in
            Inr (d3\<lparr>db_translated_resources :=
                       db_translated_resources d3 @ new_translated_resources ev locale_map created\<rparr>,
                 map r_path created)))"

text \<open>The parse loop of \<open>sync_entities_from_repo\<close>: only \<open>ParseError\<close> is caught.\<close>

fun build_updates :: "env \<Rightarrow> string \<Rightarrow> string list \<Rightarrow> (string \<times> SilmeResource option) list \<Rightarrow> error + (string \<times> SilmeResource option) list" where
  "build_updates ev rroot [] updates = Inr updates"
| "build_updates ev rroot (path # rest) updates =
     (let db_path = relpath ev (strip_pot path) rroot in
      case parse_source ev path of
        Inl ParseError \<Rightarrow> build_updates ev rroot rest (AList.update db_path None updates)
      | Inl e \<Rightarrow> Inl e
      | Inr res \<Rightarrow> build_updates ev rroot rest (AList.update db_path (Some res) updates))"

text \<open>\<open>sync_entities_from_repo\<close> returns the database and the added, changed and removed
  paths. The three phases run in one transaction: an exception leaves the database as
  it was, and the result is the exception alone.\<close>

definition sync_entities_from_repo :: "env \<Rightarrow> db \<Rightarrow> nat \<Rightarrow> (string \<times> nat) list \<Rightarrow> string \<Rightarrow> string list \<Rightarrow> string list \<Rightarrow> datetime \<Rightarrow> error + (db \<times> string list \<times> string list \<times> string list)" where
  "sync_entities_from_repo ev d project locale_map rroot changed removed now =
     (case source_locale ev of
        None \<Rightarrow> Inl DoesNotExist
      | Some _ \<Rightarrow>
     (case build_updates ev rroot changed [] of
        Inl e \<Rightarrow> Inl e
      | Inr updates \<Rightarrow>
          let (d1, removed_paths) = remove_resources ev d project rroot removed in
          case update_resources d1 project updates now of
            Inl e \<Rightarrow> Inl e
          | Inr (d2, changed_paths) \<Rightarrow>
         (case add_resources ev d2 project locale_map updates changed_paths now of
            Inl e \<Rightarrow> Inl e
          | Inr (d3, added_paths) \<Rightarrow> Inr (d3, added_paths, changed_paths, removed_paths))))"

section \<open>\<^verbatim>\<open>sync_translations_from_repo.py\<close>\<close>

definition get_path_locale :: "env \<Rightarrow> (string \<times> string) list \<Rightarrow> string option" where
  "get_path_locale ev path_vars =
     (case map_of path_vars ''locale'' of
        Some l \<Rightarrow> Some l
      | None \<Rightarrow>
          (case map_of path_vars ''android_locale'' of
             Some a \<Rightarrow> parse_android_locale ev a
           | None \<Rightarrow> None))"

text \<open>The paths of \<open>delete_removed_translated_resources\<close>: the pairs of database path
  and locale code that make up \<open>del_q\<close>.\<close>

definition removed_path_q :: "env \<Rightarrow> Checkout \<Rightarrow> string \<Rightarrow> (string \<times> string) list" where
  "removed_path_q ev co path =
     (if splitext ev path \<in> set (bilingual_extensions ev) then
        (case find_reference ev (path_join ev (co_path co) path) of
           None \<Rightarrow> []
         | Some (ref_path, path_vars) \<Rightarrow>
             (case get_path_locale ev path_vars of
                None \<Rightarrow> []
              | Some code \<Rightarrow> [(strip_pot (relpath ev ref_path (ref_root ev)), code)]))
      else [])"

definition del_q :: "env \<Rightarrow> Checkout list \<Rightarrow> Checkout \<Rightarrow> (string \<times> string) list" where
  "del_q ev checkouts ref_checkout =
     concat (map (\<lambda>co. if co \<noteq> ref_checkout then concat (map (removed_path_q ev co) (co_removed co)) else [])
                 checkouts)"

definition delete_removed_translated_resources :: "env \<Rightarrow> db \<Rightarrow> nat \<Rightarrow> Checkout list \<Rightarrow> Checkout \<Rightarrow> db" where
  "delete_removed_translated_resources ev d project checkouts ref_checkout =
     (let q = del_q ev checkouts ref_checkout in
      if q \<noteq> [] then
        d\<lparr>db_translated_resources :=
            [t \<leftarrow> db_translated_resources d.
               \<not> (\<exists>r \<in> set (db_resources d). \<exists>(lid, code) \<in> set (db_locales d).
                     r_id r = tr_resource t \<and> r_project r = Some project \<and> lid = tr_locale t
                     \<and> (r_path r, code) \<in> set q)]\<rparr>
      else d)"

text \<open>
  The first loop of \<open>find_updates_from_repo_to_db\<close>, for one changed path of one
  checkout. Its state is \<open>resource_paths\<close>, \<open>translated_resources\<close> and \<open>translations\<close>;
  any exception of the parser skips the file.
\<close>

type_synonym repo_strings = "(int option \<times> string) list \<times> bool"

type_synonym repo_state =
  "string list \<times> (string \<times> nat) list \<times> ((string \<times> string \<times> nat) \<times> repo_strings) list"

definition collect_path :: "env \<Rightarrow> (string \<times> nat) list \<Rightarrow> Checkout \<Rightarrow> string \<Rightarrow> repo_state \<Rightarrow> repo_state" where
  "collect_path ev locales co path st =
     (let target = path_join ev (co_path co) path in
      case find_reference ev target of
        None \<Rightarrow> st
      | Some (ref_path, path_vars) \<Rightarrow>
          (case (case get_path_locale ev path_vars of None \<Rightarrow> None | Some code \<Rightarrow> map_of locales code) of
             None \<Rightarrow> st
           | Some locale \<Rightarrow>
               (case parse_target ev target ref_path locale of
                  Inl error \<Rightarrow> st
                | Inr txs \<Rightarrow>
                    (case st of (resource_paths, translated_resources, trs) \<Rightarrow>
                       let db_path = strip_pot (relpath ev ref_path (ref_root ev)) in
                       (List.insert db_path resource_paths,
                        List.insert (db_path, locale) translated_resources,
                        fold (\<lambda>tx. AList.update (db_path, vt_key tx, locale) (strings tx, fuzzy tx))
                             txs trs)))))"

definition collect_changed :: "env \<Rightarrow> (string \<times> nat) list \<Rightarrow> Checkout list \<Rightarrow> Checkout \<Rightarrow> repo_state" where
  "collect_changed ev locales checkouts ref_checkout =
     fold (\<lambda>co st. if co \<noteq> ref_checkout then fold (collect_path ev locales co) (co_changed co) st else st)
          checkouts ([], [], [])"

text \<open>The rows of the query that excludes what database and repository agree on:
  \<open>(entity__resource__path, entity__key, entity__string, locale_id, plural_form, string)\<close>
  of the approved or pretranslated translations selected by \<open>tr_q\<close>.\<close>

definition matching_rows :: "db \<Rightarrow> (nat option \<times> nat) list \<Rightarrow> (string \<times> string \<times> string \<times> nat \<times> int option \<times> string) list" where
  "matching_rows d tr_q =
     concat (map (\<lambda>t.
        concat (map (\<lambda>e.
          concat (map (\<lambda>r. [(r_path r, e_key e, e_string e, locale_id t, plural_form t, t_string t)])
                 [r \<leftarrow> db_resources d. r_id r = e_resource e]))
        [e \<leftarrow> db_entities d. e_id e = Some (entity_id t) \<and> (e_resource e, locale_id t) \<in> set tr_q]))
     [t \<leftarrow> db_translations d. approved t \<or> pretranslated t])"

definition strip_match :: "(string \<times> string \<times> string \<times> nat \<times> int option \<times> string) \<Rightarrow> ((string \<times> string \<times> nat) \<times> repo_strings) list \<Rightarrow> ((string \<times> string \<times> nat) \<times> repo_strings) list" where
  "strip_match row trs =
     (case row of (path, ekey, estring, lid, pf, str) \<Rightarrow>
        let key = (path, py_or_str ekey estring, lid) in
        case map_of trs key of
          None \<Rightarrow> trs
        | Some (strs, fz) \<Rightarrow>
            if map_of strs pf = Some str then
              (if length strs > 1 then AList.update key (AList.delete pf strs, fz) trs
               else AList.delete key trs)
            else trs)"

text \<open>The rows of the \<open>ChangedEntityLocale\<close> query of the project, as the keys they
  remove from \<open>translations\<close>.\<close>

definition changed_keys :: "db \<Rightarrow> nat \<Rightarrow> (string \<times> string \<times> nat) list" where
  "changed_keys d project =
     concat (map (\<lambda>(eid, lid).
        concat (map (\<lambda>e.
          map (\<lambda>r. (r_path r, py_or_str (e_key e) (e_string e), lid))
              [r \<leftarrow> db_resources d. r_id r = e_resource e \<and> r_project r = Some project])
        [e \<leftarrow> db_entities d. e_id e = Some eid]))
     (db_changed_entity_locales d))"

text \<open>\<open>resources[db_path]\<close> for every key of \<open>translations\<close>: a path without resource
  raises \<open>KeyError\<close>. The result is the list of \<open>(resource, ent_key)\<close> of \<open>entity_q\<close>.\<close>

fun entity_q :: "(string \<times> Resource) list \<Rightarrow> (string \<times> string \<times> nat) list \<Rightarrow> error + (nat option \<times> string) list" where
  "entity_q resources [] = Inr []"
| "entity_q resources ((db_path, ent_key, lid) # keys) =
     (case map_of resources db_path of
        None \<Rightarrow> Inl KeyError
      | Some res \<Rightarrow>
          (case entity_q resources keys of
             Inl e \<Rightarrow> Inl e
           | Inr q \<Rightarrow> Inr ((r_id res, ent_key) # q)))"

definition matching_entities :: "db \<Rightarrow> (nat option \<times> string) list \<Rightarrow> ((string \<times> string) \<times> nat) list" where
  "matching_entities d q =
     dict_of (concat (map (\<lambda>e.
        case e_id e of
          None \<Rightarrow> []
        | Some i \<Rightarrow>
            map (\<lambda>r. ((r_path r, py_or_str (e_key e) (e_string e)), i))
                [r \<leftarrow> db_resources d. r_id r = e_resource e])
     [e \<leftarrow> db_entities d.
        \<exists>(rid, ent_key) \<in> set q. e_resource e = rid \<and> (e_key e = ent_key \<or> (e_key e = [] \<and> e_string e = ent_key))]))"

definition resolve_entities :: "((string \<times> string) \<times> nat) list \<Rightarrow> ((string \<times> string \<times> nat) \<times> repo_strings) list \<Rightarrow> ((nat \<times> nat) \<times> repo_strings) list" where
  "resolve_entities ents trs =
     fold (\<lambda>((db_path, ent_key, lid), tx) res.
             case map_of ents (db_path, ent_key) of
               None \<Rightarrow> res
             | Some eid \<Rightarrow> AList.update (eid, lid) tx res)
          trs []"

text \<open>The stages of \<open>find_updates_from_repo_to_db\<close>: the \<open>resources\<close> dict, the
  disjuncts \<open>(resource, locale_id)\<close> of \<open>tr_q\<close>, the removal of what database and
  repository agree on, and the removal of what has changed in the database.\<close>

definition resources_by_path :: "db \<Rightarrow> nat \<Rightarrow> string list \<Rightarrow> (string \<times> Resource) list" where
  "resources_by_path d project resource_paths =
     dict_of (map (\<lambda>r. (r_path r, r))
                  [r \<leftarrow> db_resources d. r_project r = Some project \<and> r_path r \<in> set resource_paths])"

definition translated_q :: "(string \<times> Resource) list \<Rightarrow> (string \<times> nat) list \<Rightarrow> (nat option \<times> nat) list" where
  "translated_q resources translated_resources =
     concat (map (\<lambda>(db_path, lid).
                    case map_of resources db_path of None \<Rightarrow> [] | Some res \<Rightarrow> [(r_id res, lid)])
                 translated_resources)"

definition strip_matches :: "db \<Rightarrow> (nat option \<times> nat) list \<Rightarrow> ((string \<times> string \<times> nat) \<times> repo_strings) list \<Rightarrow> ((string \<times> string \<times> nat) \<times> repo_strings) list" where
  "strip_matches d tr_q trs =
     (if tr_q \<noteq> [] then fold strip_match (matching_rows d tr_q) trs else trs)"

definition drop_changed :: "db \<Rightarrow> nat \<Rightarrow> ((string \<times> string \<times> nat) \<times> repo_strings) list \<Rightarrow> ((string \<times> string \<times> nat) \<times> repo_strings) list" where
  "drop_changed d project trs = fold AList.delete (changed_keys d project) trs"

definition find_updates_from_repo_to_db :: "env \<Rightarrow> db \<Rightarrow> nat \<Rightarrow> (string \<times> nat) list \<Rightarrow> Checkout list \<Rightarrow> Checkout \<Rightarrow> error + ((nat \<times> nat) \<times> repo_strings) list option" where
  "find_updates_from_repo_to_db ev d project locales checkouts ref_checkout =
     (case collect_changed ev locales checkouts ref_checkout of
        (resource_paths, translated_resources, trs0) \<Rightarrow>
      if trs0 = [] then Inr None
      else
        let resources = resources_by_path d project resource_paths;
            trs1 = strip_matches d (translated_q resources translated_resources) trs0
        in
        if trs1 = [] then Inr None
        else
          let trs2 = drop_changed d project trs1 in
          if trs2 = [] then Inr None
          else
            (case entity_q resources (map fst trs2) of
               Inl e \<Rightarrow> Inl e
             | Inr q \<Rightarrow> Inr (Some (resolve_entities (matching_entities d q) trs2))))"

text \<open>Modelled from the spec: the columns of \<open>Translation\<close> and the values its
  constructor gives to the columns it is not passed (flags false, dates \<open>None\<close>).\<close>

definition Translation_fields :: "string list" where
  "Translation_fields = [''id'', ''entity'', ''locale'', ''string'', ''plural_form'', ''date'',
     ''active'', ''approved'', ''approved_date'', ''unapproved_date'', ''rejected'',
     ''rejected_date'', ''unrejected_date'', ''pretranslated'', ''fuzzy'']"

definition new_translation :: "nat \<Rightarrow> nat \<Rightarrow> string \<Rightarrow> int option \<Rightarrow> datetime \<Rightarrow> Translation" where
  "new_translation eid lid str pf now =
     \<lparr> t_id = None, entity_id = eid, locale_id = lid, t_string = str, plural_form = pf,
       t_date = Some now, active = True, approved = False, approved_date = None,
       unapproved_date = None, rejected = False, rejected_date = None,
       unrejected_date = None, pretranslated = False, t_fuzzy = False \<rparr>"

definition set_translation_column :: "Translation \<Rightarrow> string \<Rightarrow> Translation \<Rightarrow> Translation" where
  "set_translation_column obj name row =
     (if name = ''entity'' then row\<lparr>entity_id := entity_id obj\<rparr>
      else if name = ''locale'' then row\<lparr>locale_id := locale_id obj\<rparr>
      else if name = ''string'' then row\<lparr>t_string := t_string obj\<rparr>
      else if name = ''plural_form'' then row\<lparr>plural_form := plural_form obj\<rparr>
      else if name = ''date'' then row\<lparr>t_date := t_date obj\<rparr>
      else if name = ''active'' then row\<lparr>active := active obj\<rparr>
      else if name = ''approved'' then row\<lparr>approved := approved obj\<rparr>
      else if name = ''approved_date'' then row\<lparr>approved_date := approved_date obj\<rparr>
      else if name = ''unapproved_date'' then row\<lparr>unapproved_date := unapproved_date obj\<rparr>
      else if name = ''rejected'' then row\<lparr>rejected := rejected obj\<rparr>
      else if name = ''rejected_date'' then row\<lparr>rejected_date := rejected_date obj\<rparr>
      else if name = ''unrejected_date'' then row\<lparr>unrejected_date := unrejected_date obj\<rparr>
      else if name = ''pretranslated'' then row\<lparr>pretranslated := pretranslated obj\<rparr>
      else if name = ''fuzzy'' then row\<lparr>t_fuzzy := t_fuzzy obj\<rparr>
      else row)"

definition write_translation :: "Translation list \<Rightarrow> string list \<Rightarrow> Translation \<Rightarrow> Translation" where
  "write_translation objs names row =
     (case find (\<lambda>obj. t_id obj = t_id row) objs of
        None \<Rightarrow> row
      | Some obj \<Rightarrow> fold (set_translation_column obj) names row)"

definition bulk_update_translations :: "db \<Rightarrow> Translation list \<Rightarrow> string list \<Rightarrow> error + db" where
  "bulk_update_translations d objs names =
     (case bulk_update_check Translation_fields names (map t_id objs) of
        Inl e \<Rightarrow> Inl e
      | Inr _ \<Rightarrow> Inr (d\<lparr>db_translations := map (write_translation objs names) (db_translations d)\<rparr>))"

definition bulk_create_translations :: "db \<Rightarrow> Translation list \<Rightarrow> db \<times> Translation list" where
  "bulk_create_translations d objs =
     (let created = map (\<lambda>(obj, i). obj\<lparr>t_id := Some i\<rparr>)
                        (zip objs (fresh_ids (map t_id (db_translations d)) (length objs)))
      in (d\<lparr>db_translations := db_translations d @ created\<rparr>, created))"

text \<open>\<open>tx.get_dirty_fields()\<close>: the columns whose value on the object differs from the
  value it was loaded with.\<close>

definition get_dirty_fields :: "Translation \<Rightarrow> Translation \<Rightarrow> string list" where
  "get_dirty_fields loaded tx =
     (if rejected tx \<noteq> rejected loaded then [''rejected''] else [])
     @ (if unrejected_date tx \<noteq> unrejected_date loaded then [''unrejected_date''] else [])
     @ (if active tx \<noteq> active loaded then [''active''] else [])
     @ (if t_fuzzy tx \<noteq> t_fuzzy loaded then [''fuzzy''] else [])
     @ (if approved tx \<noteq> approved loaded then [''approved''] else [])
     @ (if approved_date tx \<noteq> approved_date loaded then [''approved_date''] else [])
     @ (if pretranslated tx \<noteq> pretranslated loaded then [''pretranslated''] else [])
     @ (if unapproved_date tx \<noteq> unapproved_date loaded then [''unapproved_date''] else [])"

text \<open>The names \<open>get_dirty_fields\<close> can return.\<close>

definition dirty_names :: "string set" where
  "dirty_names = {''rejected'', ''unrejected_date'', ''active'', ''fuzzy'', ''approved'',
                  ''approved_date'', ''pretranslated'', ''unapproved_date''}"

text \<open>The query of the matching suggestions. An empty \<open>Q()\<close> filters nothing.\<close>

definition matching_suggestions_q :: "((nat \<times> nat) \<times> repo_strings) list \<Rightarrow> (nat \<times> nat \<times> int option \<times> string) list" where
  "matching_suggestions_q repo_translations =
     concat (map (\<lambda>((eid, lid), (strs, fz)). map (\<lambda>(pf, str). (eid, lid, pf, str)) strs)
                 repo_translations)"

definition find_suggestions :: "db \<Rightarrow> ((nat \<times> nat) \<times> repo_strings) list \<Rightarrow> Translation list" where
  "find_suggestions d repo_translations =
     (let q = matching_suggestions_q repo_translations in
      [t \<leftarrow> db_translations d.
         (q = [] \<or> (entity_id t, locale_id t, plural_form t, t_string t) \<in> set q)
         \<and> \<not> approved t \<and> \<not> pretranslated t])"

text \<open>
  The loop over the suggestions. Its state: what is left of \<open>repo_translations\<close>, the
  suggestions as changed so far, \<open>translations_to_reject\<close> as the list of
  \<open>(entity, locale, plural_form, id)\<close> of its disjuncts, the actions and the dirty
  fields. \<open>repo_translations[key]\<close> raises \<open>KeyError\<close> once the key is deleted.
\<close>

type_synonym reject_q = "(nat \<times> nat \<times> int option \<times> nat option) list"

definition approve_suggestion :: "nat \<Rightarrow> datetime \<Rightarrow> bool \<Rightarrow> Translation \<Rightarrow> Translation \<times> reject_q \<times> ActionLog list" where
  "approve_suggestion user now fz tx =
     (let unrej = (if rejected tx
                   then [\<lparr> action_type = TRANSLATION_UNREJECTED, created_at = None,
                            performed_by = user, al_translation = t_id tx \<rparr>]
                   else []);
          tx1 = (if rejected tx then tx\<lparr>rejected := False, unrejected_date := Some now\<rparr> else tx);
          tx2 = tx1\<lparr>active := True, t_fuzzy := fz\<rparr>
      in if \<not> fz then
           (tx2\<lparr>approved := True, approved_date := Some now, pretranslated := False,
                 unapproved_date := None\<rparr>,
            [(entity_id tx, locale_id tx, plural_form tx, t_id tx)],
            unrej @ [\<lparr> action_type = TRANSLATION_APPROVED, created_at = None,
                        performed_by = user, al_translation = t_id tx \<rparr>])
         else (tx2, [], unrej))"

fun approve_suggestions :: "nat \<Rightarrow> datetime \<Rightarrow> Translation list \<Rightarrow> ((nat \<times> nat) \<times> repo_strings) list \<Rightarrow> error + (((nat \<times> nat) \<times> repo_strings) list \<times> Translation list \<times> reject_q \<times> ActionLog list \<times> string list)" where
  "approve_suggestions user now [] repo_translations = Inr (repo_translations, [], [], [], [])"
| "approve_suggestions user now (tx # txs) repo_translations =
     (let key = (entity_id tx, locale_id tx) in
      case map_of repo_translations key of
        None \<Rightarrow> Inl KeyError
      | Some (strs, fz) \<Rightarrow>
          (case approve_suggestion user now fz tx of (tx', rej, acts) \<Rightarrow>
           case approve_suggestions user now txs (AList.delete key repo_translations) of
             Inl e \<Rightarrow> Inl e
           | Inr (rest, txs', rej', acts', dirty) \<Rightarrow>
               Inr (rest, tx' # txs', rej @ rej', acts @ acts', get_dirty_fields tx tx' @ dirty)))"

text \<open>The new translations for what is left of \<open>repo_translations\<close>.\<close>

definition new_translations :: "datetime \<Rightarrow> ((nat \<times> nat) \<times> repo_strings) list \<Rightarrow> Translation list" where
  "new_translations now repo_translations =
     concat (map (\<lambda>((eid, lid), (strs, fz)).
        map (\<lambda>(pf, str).
               if fz then (new_translation eid lid str pf now)\<lparr>t_fuzzy := True\<rparr>
               else (new_translation eid lid str pf now)\<lparr>approved := True, approved_date := Some now\<rparr>)
            strs)
        repo_translations)"

definition to_reject :: "reject_q \<Rightarrow> Translation \<Rightarrow> bool" where
  "to_reject q t =
     (\<not> rejected t \<and> (\<exists>(eid, lid, pf, i) \<in> set q.
         entity_id t = eid \<and> locale_id t = lid \<and> plural_form t = pf \<and> t_id t \<noteq> i))"

definition reject :: "datetime \<Rightarrow> Translation \<Rightarrow> Translation" where
  "reject now t = t\<lparr> active := False, approved := False, approved_date := None, rejected := True,
                     rejected_date := Some now, pretranslated := False, t_fuzzy := False \<rparr>"

definition update_db_translations :: "env \<Rightarrow> db \<Rightarrow> ((nat \<times> nat) \<times> repo_strings) list \<Rightarrow> datetime \<Rightarrow> error + db" where
  "update_db_translations ev d repo_translations now =
     (case sync_user ev of
        None \<Rightarrow> Inl DoesNotExist
      | Some user \<Rightarrow>
     (case approve_suggestions user now (find_suggestions d repo_translations) repo_translations of
        Inl e \<Rightarrow> Inl e
      | Inr (rest, suggestions, rej1, acts1, dirty) \<Rightarrow>
     (case bulk_update_translations d suggestions (remdups dirty) of
        Inl e \<Rightarrow> Inl e
      | Inr d1 \<Rightarrow>
          let (d2, created) = (if rest \<noteq> [] then bulk_create_translations d1 (new_translations now rest)
                               else (d1, []));
              acts2 = map (\<lambda>tx. \<lparr> action_type = TRANSLATION_CREATED, created_at = Some now,
                                   performed_by = user, al_translation = t_id tx \<rparr>) created;
              rej = rej1 @ map (\<lambda>tx. (entity_id tx, locale_id tx, plural_form tx, t_id tx)) created;
              acts3 = (if rej \<noteq> [] then
                         map (\<lambda>tx. \<lparr> action_type = TRANSLATION_REJECTED, created_at = None,
                                      performed_by = user, al_translation = t_id tx \<rparr>)
                             [t \<leftarrow> db_translations d2. to_reject rej t]
                       else []);
              d3 = (if rej \<noteq> [] then
                      d2\<lparr>db_translations :=
                           map (\<lambda>t. if to_reject rej t then reject now t else t) (db_translations d2)\<rparr>
                    else d2);
              actions = acts1 @ acts2 @ acts3
          in Inr (d3\<lparr>db_action_logs := db_action_logs d3 @ actions\<rparr>))))"

definition sync_translations_from_repo :: "env \<Rightarrow> db \<Rightarrow> nat \<Rightarrow> (string \<times> nat) list \<Rightarrow> Checkout list \<Rightarrow> Checkout \<Rightarrow> datetime \<Rightarrow> error + db" where
  "sync_translations_from_repo ev d project locales checkouts ref_checkout now =
     (let d1 = delete_removed_translated_resources ev d project checkouts ref_checkout in
      case find_updates_from_repo_to_db ev d1 project locales checkouts ref_checkout of
        Inl e \<Rightarrow> Inl e
      | Inr None \<Rightarrow> Inr d1
      | Inr (Some repo_translations) \<Rightarrow>
          if repo_translations \<noteq> [] then update_db_translations ev d1 repo_translations now
          else Inr d1)"

section \<open>\<^verbatim>\<open>sync_project.py\<close>\<close>

text \<open>
  The part of \<open>sync_project\<close> that follows the checkouts and the path resolver: \<open>now\<close>
  is read once, before, and handed to both reconcilers.
\<close>

definition sync_project :: "env \<Rightarrow> db \<Rightarrow> nat \<Rightarrow> (string \<times> nat) list \<Rightarrow> Checkout list \<Rightarrow> Checkout \<Rightarrow> datetime \<Rightarrow> error + db" where
  "sync_project ev d project locale_map checkouts ref_checkout now =
     (case sync_entities_from_repo ev d project locale_map
             (relpath ev (ref_root ev) (co_path ref_checkout))
             (co_changed ref_checkout) (co_removed ref_checkout) now of
        Inl e \<Rightarrow> Inl e
      | Inr (d1, added, changed, removed) \<Rightarrow>
          sync_translations_from_repo ev d1 project locale_map checkouts ref_checkout now)"

section \<open>Example states\<close>

definition ex_tx :: "string \<Rightarrow> SilmeEntity" where
  "ex_tx k = \<lparr> tx_key = k, source_string = k, source_string_plural = [], comments = [],
               group_comments = Some [], resource_comments = Some [], tx_source = [],
               tx_order = None, tx_context = [] \<rparr>"

definition ex_parsed :: SilmeResource where
  "ex_parsed = \<lparr> res_entities = [ex_tx ''hello'', ex_tx ''bye''],
                 res_translations = [ex_tx ''hello'', ex_tx ''bye''] \<rparr>"

definition ex_resource :: Resource where
  "ex_resource = \<lparr> r_id = Some 1, r_project = Some 1, r_path = ''app.ftl'', r_format = ''ftl'',
                   total_strings = 0, r_order = 0 \<rparr>"

definition ex_db :: db where
  "ex_db = \<lparr> db_resources = [ex_resource], db_entities = [], db_translated_resources = [],
             db_translations = [], db_changed_entity_locales = [], db_action_logs = [],
             db_locales = [(1, ''de'')] \<rparr>"

text \<open>An environment whose parser raises \<open>ParseError\<close> on every source file but
  \<^verbatim>\<open>good.ftl\<close>, and whose paths are already relative to the reference root.\<close>

definition ex_env :: env where
  "ex_env = \<lparr> parse_source = (\<lambda>p. if p = ''good.ftl'' then Inr ex_parsed else Inl ParseError),
              parse_target = (\<lambda>t r l. Inr []),
              relpath = (\<lambda>p r. p),
              path_join = (\<lambda>a b. a @ ''/'' @ b),
              splitext = (\<lambda>p. []),
              isfile = (\<lambda>p. True),
              get_path_format = (\<lambda>p. ''ftl''),
              ref_root = ''.'',
              target_path = (\<lambda>p l. None),
              target_locales = (\<lambda>p. []),
              find_reference = (\<lambda>p. None),
              parse_android_locale = (\<lambda>c. None),
              bilingual_extensions = [''.po'', ''.pot'', ''.xliff''],
              source_locale = Some 0,
              sync_user = Some 0 \<rparr>"

text \<open>Translations of entity 1 in locale 1: a suggestion (not approved, not active) and
  an approved, active translation.\<close>

definition ex_suggestion :: "nat \<Rightarrow> string \<Rightarrow> int option \<Rightarrow> Translation" where
  "ex_suggestion i s pf =
     \<lparr> t_id = Some i, entity_id = 1, locale_id = 1, t_string = s, plural_form = pf,
       t_date = Some 1, active = False, approved = False, approved_date = None,
       unapproved_date = None, rejected = False, rejected_date = None,
       unrejected_date = None, pretranslated = False, t_fuzzy = False \<rparr>"

definition ex_approved :: "nat \<Rightarrow> string \<Rightarrow> int option \<Rightarrow> Translation" where
  "ex_approved i s pf =
     (ex_suggestion i s pf)\<lparr>active := True, approved := True, approved_date := Some 1\<rparr>"

definition ex_db_with :: "Translation list \<Rightarrow> db" where
  "ex_db_with ts = ex_db\<lparr>db_translations := ts\<rparr>"

text \<open>The number of active translations of one \<open>(entity, locale, plural_form)\<close>.\<close>

definition active_count :: "db \<Rightarrow> nat \<Rightarrow> nat \<Rightarrow> int option \<Rightarrow> nat" where
  "active_count d eid lid pf =
     length [t \<leftarrow> db_translations d.
               entity_id t = eid \<and> locale_id t = lid \<and> plural_form t = pf \<and> active t]"

text \<open>Two resources of project 1, in the table against the order of their paths.\<close>

definition ex_db_two :: db where
  "ex_db_two = ex_db\<lparr>db_resources :=
     [ex_resource\<lparr>r_id := Some 1, r_path := ''b.ftl'', r_order := 7\<rparr>,
      ex_resource\<lparr>r_id := Some 2, r_path := ''a.ftl'', r_order := 7\<rparr>]\<rparr>"

text \<open>A project with one resource, two entities and the locale \<open>de\<close>; the target file
  \<^verbatim>\<open>l10n/de/app.ftl\<close> translates both entities, and the database has a change of
  its own for the first.\<close>

definition ex_entity :: "nat \<Rightarrow> string \<Rightarrow> Entity" where
  "ex_entity i k = \<lparr> e_id = Some i, e_resource = Some 1, e_string = k, string_plural = [],
       e_key = k, comment = [], e_source = [], group_comment = [], resource_comment = [],
       e_context = [], e_order = 0, obsolete = False, date_obsoleted = None, date_created = 1 \<rparr>"

definition ex_db_de :: db where
  "ex_db_de = ex_db\<lparr> db_entities := [ex_entity 1 ''hello'', ex_entity 2 ''bye''],
       db_translations := [ex_approved 1 ''Hallo'' None,
                           (ex_suggestion 2 ''Adieu'' None)\<lparr>entity_id := 2\<rparr>],
       db_changed_entity_locales := [(1, 1)] \<rparr>"

definition ex_env_de :: env where
  "ex_env_de = ex_env\<lparr>
     find_reference := (\<lambda>p. if p = ''l10n/de/app.ftl''
                             then Some (''app.ftl'', [(''locale'', ''de'')]) else None),
     parse_target := (\<lambda>t r l. Inr [\<lparr> vt_key = ''hello'', strings = [(None, ''Hallo neu'')], fuzzy = False \<rparr>,
                                    \<lparr> vt_key = ''bye'', strings = [(None, ''Adieu'')], fuzzy = False \<rparr>]) \<rparr>"

definition ex_ref_checkout :: Checkout where
  "ex_ref_checkout = \<lparr> co_repo = 1, co_locale_code = None, co_is_source = True, co_path = ''src'',
       co_changed = [], co_removed = [] \<rparr>"

definition ex_target_checkout :: "string list \<Rightarrow> Checkout" where
  "ex_target_checkout paths = \<lparr> co_repo = 2, co_locale_code = None, co_is_source = False,
       co_path = ''l10n'', co_changed = paths, co_removed = [] \<rparr>"

text \<open>The same project where the target file has \<open>hello\<close> without translation (its
  \<open>strings\<close> is the empty dict), and the database has an approved translation \<open>A\<close> and a
  suggestion \<open>B\<close> of \<open>hello\<close>.\<close>

definition ex_env_untranslated :: env where
  "ex_env_untranslated = ex_env_de\<lparr>
     parse_target := (\<lambda>t r l. Inr [\<lparr> vt_key = ''hello'', strings = [], fuzzy = False \<rparr>]) \<rparr>"

definition ex_db_two_rows :: db where
  "ex_db_two_rows = ex_db\<lparr> db_entities := [ex_entity 1 ''hello''],
       db_translations := [ex_approved 1 ''A'' None, ex_suggestion 2 ''B'' None] \<rparr>"

section \<open>Lemmas on the helpers\<close>

lemma set_update_subset: "set (AList.update k v al) \<subseteq> insert (k, v) (set al)"
  by (induction al) auto

lemma set_fold_update_subset:
  "set (fold (\<lambda>(k, v). AList.update k v) kvs acc) \<subseteq> set kvs \<union> set acc"
proof (induction kvs arbitrary: acc)
  case Nil
  then show ?case by simp
next
  case (Cons kv kvs)
  obtain k v where kv: "kv = (k, v)" by (cases kv)
  have "set (fold (\<lambda>(k, v). AList.update k v) kvs (AList.update k v acc))
          \<subseteq> set kvs \<union> set (AList.update k v acc)"
    by (rule Cons.IH)
  with set_update_subset [of k v acc] show ?case
    unfolding kv by auto
qed

lemma set_dict_of_subset: "set (dict_of kvs) \<subseteq> set kvs"
  using set_fold_update_subset [of kvs "[]"] by (simp add: dict_of_def)

lemma entity_from_source_order:
  "entity_from_source cr now idx tx = Inr ent \<Longrightarrow> e_order ent = py_or_int (tx_order tx) idx"
  by (auto simp: entity_from_source_def split: sum.splits)

lemma entities_of_resource_sound:
  "entities_of_resource cr now txs = Inr pes \<Longrightarrow> (p, ent) \<in> set pes \<Longrightarrow>
     \<exists>tx \<in> set txs. entity_from_source cr now 0 tx = Inr ent"
proof (induction txs arbitrary: pes)
  case Nil
  then show ?case by simp
next
  case (Cons tx txs)
  then show ?case
    by (fastforce split: sum.splits)
qed

lemma source_entities_sound:
  "source_entities updates now crs = Inr pes \<Longrightarrow> (p, ent) \<in> set pes \<Longrightarrow>
     \<exists>cr \<in> set crs. \<exists>res. map_of updates (r_path cr) = Some (Some res)
        \<and> (\<exists>tx \<in> set (res_translations res). entity_from_source cr now 0 tx = Inr ent)"
proof (induction crs arbitrary: pes)
  case Nil
  then show ?case by simp
next
  case (Cons cr crs)
  from Cons.prems(1) obtain res ents rest where
    res: "map_of updates (r_path cr) = Some (Some res)" and
    ents: "entities_of_resource cr now (res_translations res) = Inr ents" and
    rest: "source_entities updates now crs = Inr rest" and
    pes: "pes = ents @ rest"
    by (auto split: option.splits sum.splits)
  from Cons.prems(2) pes consider "(p, ent) \<in> set ents" | "(p, ent) \<in> set rest" by auto
  then show ?case
  proof cases
    case 1
    with entities_of_resource_sound [OF ents] res show ?thesis by auto
  next
    case 2
    with Cons.IH [OF rest] show ?thesis by auto
  qed
qed

lemma added_entities_sound:
  assumes "next_entities updates now crs = Inr nxt" and "ent \<in> set (added_entities prev nxt)"
  shows "\<exists>cr \<in> set crs. \<exists>res. map_of updates (r_path cr) = Some (Some res)
           \<and> (\<exists>tx \<in> set (res_translations res). entity_from_source cr now 0 tx = Inr ent)"
proof -
  from assms(1) obtain pes where
    pes: "source_entities updates now crs = Inr pes" and
    nxt: "nxt = dict_of (map (\<lambda>(path, entity). ((path, entity_key entity), entity)) pes)"
    by (auto simp: next_entities_def split: sum.splits)
  from assms(2) obtain key where "(key, ent) \<in> set nxt"
    by (auto simp: added_entities_def)
  with nxt set_dict_of_subset have "(key, ent) \<in> set (map (\<lambda>(path, entity). ((path, entity_key entity), entity)) pes)"
    by blast
  then obtain p where "(p, ent) \<in> set pes" by auto
  with source_entities_sound [OF pes] show ?thesis by blast
qed

lemma bulk_update_entities_length:
  "bulk_update_entities d objs names = Inr d' \<Longrightarrow> length (db_entities d') = length (db_entities d)"
  by (auto simp: bulk_update_entities_def split: sum.splits)

lemma bulk_create_entities_rows:
  "db_entities (fst (bulk_create_entities d objs)) =
     db_entities d @ map (\<lambda>(obj, i). obj\<lparr>e_id := Some i\<rparr>)
                        (zip objs (fresh_ids (map e_id (db_entities d)) (length objs)))"
  by (simp add: bulk_create_entities_def Let_def)

lemma entity_from_source_no_id:
  "entity_from_source cr now idx tx = Inr ent \<Longrightarrow> e_id ent = None"
  by (auto simp: entity_from_source_def split: sum.splits)

section \<open>Claims on the entity reconciler\<close>

text \<open>
  C6 (entity_from_source, optional comments). The claim wants the empty string for the
  group comment of a parsed translation that has no \<open>group_comments\<close> attribute. The
  code passes \<open>None\<close> to \<open>"\n".join\<close> in that case, which raises \<open>TypeError\<close>: no entity
  is constructed at all.
\<close>

theorem entity_from_source_missing_group_comments:
  "entity_from_source resource now idx (tx\<lparr>group_comments := None\<rparr>) = Inl TypeError"
  by (simp add: entity_from_source_def join_opt_def)

text \<open>Where both attributes are present the comments are the newline joins.\<close>

lemma entity_from_source_comments:
  "group_comments tx = Some gs \<Longrightarrow> resource_comments tx = Some rs \<Longrightarrow>
     \<exists>ent. entity_from_source resource now idx tx = Inr ent
        \<and> group_comment ent = str_join newline gs \<and> resource_comment ent = str_join newline rs"
  by (simp add: entity_from_source_def join_opt_def)

lemma entity_from_source_missing_resource_comments:
  "entity_from_source resource now idx (tx\<lparr>resource_comments := None\<rparr>) = Inl TypeError"
  by (simp add: entity_from_source_def join_opt_def split: option.splits)

text \<open>
  C10 (update-phase entity order). Every row that the update phase inserts into the
  entity table is what \<open>entity_from_source\<close> builds at index \<open>0\<close> from a parsed
  translation \<open>tx\<close> of a changed resource, so its order is \<open>tx.order or 0\<close>: it is \<open>0\<close>
  when \<open>tx.order\<close> is \<open>None\<close> or \<open>0\<close>, whatever the position of \<open>tx\<close> in the file.
\<close>

theorem update_entities_inserted_order:
  assumes "update_entities d crs updates now = Inr d'"
    and "length (db_entities d) \<le> i" and "i < length (db_entities d')"
  shows "\<exists>cr \<in> set crs. \<exists>res. map_of updates (r_path cr) = Some (Some res)
           \<and> (\<exists>tx \<in> set (res_translations res).
                 entity_from_source cr now 0 tx = Inr ((db_entities d' ! i)\<lparr>e_id := None\<rparr>)
               \<and> e_order (db_entities d' ! i) = py_or_int (tx_order tx) 0
               \<and> (tx_order tx = None \<or> tx_order tx = Some 0 \<longrightarrow> e_order (db_entities d' ! i) = 0))"
proof -
  define prev where "prev = prev_entities d crs"
  from assms(1) obtain nxt d1 d2 where
    nxt: "next_entities updates now crs = Inr nxt" and
    d1: "bulk_update_entities d (obsolete_entities prev nxt now) [''obsolete'', ''date_obsoleted''] = Inr d1" and
    d2: "bulk_update_entities d1 (modified_entities prev nxt)
           [''string'', ''string_plural'', ''comment'', ''source'', ''group_comment'',
            ''resource_comment'', ''context''] = Inr d2" and
    d': "d' = fst (bulk_create_entities d2 (added_entities prev nxt))"
    by (auto simp: update_entities_def prev_def Let_def split: sum.splits)
  define added where "added = added_entities prev nxt"
  define ids where "ids = fresh_ids (map e_id (db_entities d2)) (length added)"
  have len: "length (db_entities d2) = length (db_entities d)"
    using bulk_update_entities_length [OF d1] bulk_update_entities_length [OF d2] by simp
  have rows: "db_entities d' = db_entities d2 @ map (\<lambda>(obj, i). obj\<lparr>e_id := Some i\<rparr>) (zip added ids)"
    unfolding d' added_def ids_def by (rule bulk_create_entities_rows)
  define j where "j = i - length (db_entities d)"
  have j: "j < length (zip added ids)" and i: "i = length (db_entities d2) + j"
    using assms(2,3) rows len by (auto simp: j_def)
  have row: "db_entities d' ! i = (\<lambda>(obj, i). obj\<lparr>e_id := Some i\<rparr>) (zip added ids ! j)"
    using j unfolding rows i by (simp add: nth_append)
  obtain obj k where objk: "zip added ids ! j = (obj, k)" by (cases "zip added ids ! j")
  have "(obj, k) \<in> set (zip added ids)" using j objk by (metis nth_mem)
  then have mem: "obj \<in> set (added_entities prev nxt)"
    unfolding added_def by (auto dest: set_zip_leftD)
  from added_entities_sound [OF nxt mem] obtain cr res tx where
    cr: "cr \<in> set crs" and res: "map_of updates (r_path cr) = Some (Some res)" and
    tx: "tx \<in> set (res_translations res)" and efs: "entity_from_source cr now 0 tx = Inr obj"
    by blast
  have eq: "(db_entities d' ! i)\<lparr>e_id := None\<rparr> = obj"
    using entity_from_source_no_id [OF efs] by (simp add: row objk)
  have ord: "e_order (db_entities d' ! i) = py_or_int (tx_order tx) 0"
    using entity_from_source_order [OF efs] by (simp add: row objk)
  have zero: "tx_order tx = None \<or> tx_order tx = Some 0 \<longrightarrow> e_order (db_entities d' ! i) = 0"
    using ord by (auto simp: py_or_int_def)
  from cr res tx efs eq ord zero show ?thesis by blast
qed

theorem update_entities_inserted_order_witness:
  "\<exists>d'. update_entities ex_db [ex_resource] [(''app.ftl'', Some ex_parsed)] 7 = Inr d'
      \<and> length (db_entities ex_db) \<le> 1 \<and> 1 < length (db_entities d')
      \<and> (\<exists>tx \<in> set (res_translations ex_parsed).
            entity_from_source ex_resource 7 0 tx = Inr ((db_entities d' ! 1)\<lparr>e_id := None\<rparr>)
          \<and> e_order (db_entities d' ! 1) = 0)"
proof -
  obtain d' where run: "update_entities ex_db [ex_resource] [(''app.ftl'', Some ex_parsed)] 7 = Inr d'"
    and len: "length (db_entities d') = 2"
    by (simp add: update_entities_def prev_entities_def next_entities_def dict_of_def
        obsolete_entities_def modified_entities_def added_entities_def bulk_update_entities_def
        bulk_update_check_def bulk_create_entities_def fresh_ids_def max_id_def
        entity_from_source_def join_opt_def entity_key_def py_or_str_def py_or_int_def
        ex_db_def ex_resource_def ex_parsed_def ex_tx_def Entity_fields_def newline_def Let_def)
  have lo: "length (db_entities ex_db) \<le> 1" by (simp add: ex_db_def)
  have hi: "1 < length (db_entities d')" using len by simp
  from update_entities_inserted_order [OF run lo hi] obtain res tx where
    "map_of [(''app.ftl'', Some ex_parsed)] (r_path ex_resource) = Some (Some res)"
    "tx \<in> set (res_translations res)"
    "entity_from_source ex_resource 7 0 tx = Inr ((db_entities d' ! 1)\<lparr>e_id := None\<rparr>)"
    "tx_order tx = None \<or> tx_order tx = Some 0 \<longrightarrow> e_order (db_entities d' ! 1) = 0"
    by auto
  moreover from this have "res = ex_parsed" by (simp add: ex_resource_def)
  moreover have "\<forall>tx \<in> set (res_translations ex_parsed). tx_order tx = None"
    by (simp add: ex_parsed_def ex_tx_def)
  ultimately show ?thesis using run lo hi by blast
qed

text \<open>
  C8 (changed-resource string counts). The claim wants \<open>total_strings\<close> of every changed
  resource persisted as the number of parsed entities. The code sets it on the
  in-memory objects and then calls \<open>bulk_update\<close> with the string \<open>("total_strings")\<close>
  as the list of field names: the names are the characters \<open>t\<close>, \<open>o\<close>, ..., none of
  which is a column, and the call raises \<open>FieldDoesNotExist\<close>. Here the resource
  \<^verbatim>\<open>app.ftl\<close> is in the database and its parsed file has two entities.
\<close>

theorem update_resources_total_strings_not_persisted:
  "update_resources ex_db 1 [(''app.ftl'', Some ex_parsed)] 7 = Inl FieldDoesNotExist"
  by (simp add: update_resources_def changed_resources_def project_resources_def ex_db_def
      ex_resource_def bulk_update_resources_def bulk_update_check_def str_iter_def
      Resource_fields_def ex_parsed_def)

text \<open>The same holds of every non-empty \<open>updates\<close>: \<open>update_resources\<close> does not return.\<close>

lemma total_strings_field_names_rejected:
  "\<exists>e. bulk_update_resources d crs (str_iter ''total_strings'') = Inl e"
  by (simp add: bulk_update_resources_def bulk_update_check_def str_iter_def Resource_fields_def)

lemma update_resources_nonempty_raises:
  "updates \<noteq> [] \<Longrightarrow> \<exists>e. update_resources d project updates now = Inl e"
proof -
  assume ne: "updates \<noteq> []"
  show ?thesis
  proof (cases "set_total_strings updates (changed_resources d project updates)")
    case (Inl e)
    with ne show ?thesis by (simp add: update_resources_def)
  next
    case (Inr crs)
    from total_strings_field_names_rejected [of d crs] obtain e where
      "bulk_update_resources d crs (str_iter ''total_strings'') = Inl e" by blast
    with ne Inr show ?thesis by (simp add: update_resources_def)
  qed
qed

text \<open>
  C4 (reference-side parse failure is local). The claim wants a source file that fails
  to parse dropped and the sync to go on. The parse loop maps its path to \<open>None\<close>, and
  \<open>add_resources\<close> skips such entries, but \<open>update_resources\<close> reads
  \<open>updates[cr.path].entities\<close> without asking: where the resource of the failed path is
  already in the database this is an attribute access on \<open>None\<close>, and the sync fails
  with \<open>AttributeError\<close>. Here \<^verbatim>\<open>app.ftl\<close> is in the database and does not parse.
\<close>

theorem sync_entities_from_repo_parse_error_fatal:
  "sync_entities_from_repo ex_env ex_db 1 [] ''.'' [''app.ftl''] [] 7 = Inl AttributeError"
  by (simp add: sync_entities_from_repo_def ex_env_def strip_pot_def endswith_def
      remove_resources_def update_resources_def changed_resources_def project_resources_def
      ex_db_def ex_resource_def)

text \<open>The sibling path: \<open>add_resources\<close> leaves out the entries whose parse failed.\<close>

lemma new_resources_skips_failed_parse:
  "new_resources ev [(p, None)] changed_paths = []"
  by (simp add: new_resources_def)

subsection \<open>The order of resources\<close>

lemma insort_key_map_same:
  "(\<And>x. f (g x) = f x) \<Longrightarrow> insort_key f (g x) (map g ys) = map g (insort_key f x ys)"
  by (induction ys) auto

lemma sort_key_map_same:
  "(\<And>x. f (g x) = f x) \<Longrightarrow> sort_key f (map g xs) = map g (sort_key f xs)"
  by (induction xs) (auto simp: insort_key_map_same)

lemma find_reordered:
  assumes "distinct (map r_id S)" and "i < length S"
  shows "find (\<lambda>obj. r_id obj = r_id (S ! i)) (map (\<lambda>(idx, r). r\<lparr>r_order := idx\<rparr>) (enumerate 0 S))
           = Some ((S ! i)\<lparr>r_order := i\<rparr>)"
proof -
  have "r_id (S ! j) \<noteq> r_id (S ! i)" if "j < i" for j
  proof -
    from that assms(2) have "j < length (map r_id S)" "i < length (map r_id S)" "j \<noteq> i" by simp_all
    with assms(1) have "map r_id S ! j \<noteq> map r_id S ! i"
      unfolding distinct_conv_nth by blast
    with that assms(2) show ?thesis by simp
  qed
  then show ?thesis
    unfolding find_Some_iff using assms(2)
    by (intro exI [of _ i]) (simp add: nth_enumerate_eq)
qed

lemma write_resource_reordered:
  assumes "distinct (map r_id S)" and "i < length S"
  shows "write_resource (map (\<lambda>(idx, r). r\<lparr>r_order := idx\<rparr>) (enumerate 0 S)) [''order''] (S ! i)
           = (S ! i)\<lparr>r_order := i\<rparr>"
  by (simp add: write_resource_def find_reordered [OF assms] set_resource_column_def)

lemma write_resource_same:
  "r_project (write_resource objs [''order''] r) = r_project r"
  "r_path (write_resource objs [''order''] r) = r_path r"
  by (auto simp: write_resource_def set_resource_column_def split: option.splits)

lemma project_resources_bulk_create:
  "project_resources (fst (bulk_create_resources d (new_resources ev updates changed_paths))) project
     = project_resources d project"
proof -
  have "\<forall>r \<in> set (new_resources ev updates changed_paths). r_project r = None"
    by (auto simp: new_resources_def split: option.splits if_splits)
  then have "[r \<leftarrow> map (\<lambda>(obj, i). obj\<lparr>r_id := Some i\<rparr>) (zip (new_resources ev updates changed_paths) ids). r_project r = Some project] = []" for ids
    by (auto simp: filter_empty_conv dest: set_zip_leftD)
  then show ?thesis
    by (simp add: project_resources_def bulk_create_resources_def Let_def)
qed

lemma add_resources_project_resources:
  assumes "add_resources ev d project locale_map updates changed_paths now = Inr (d', added)"
    and "added \<noteq> []"
  shows "project_resources d' project =
           map (write_resource (reorder_resources d project) [''order'']) (project_resources d project)"
proof -
  define nr where "nr = new_resources ev updates changed_paths"
  define d1 where "d1 = fst (bulk_create_resources d nr)"
  have ne: "nr \<noteq> []" using assms by (auto simp: add_resources_def nr_def Let_def)
  have pr1: "project_resources d1 project = project_resources d project"
    unfolding d1_def nr_def by (rule project_resources_bulk_create)
  then have ro: "reorder_resources d1 project = reorder_resources d project"
    by (simp add: reorder_resources_def)
  from assms(1) ne obtain d2 where
    d2: "bulk_update_resources d1 (reorder_resources d1 project) [''order''] = Inr d2" and
    res: "db_resources d' = db_resources d2"
    by (auto simp: add_resources_def nr_def d1_def Let_def bulk_create_entities_def
             split: sum.splits prod.splits)
  from d2 have "db_resources d2 = map (write_resource (reorder_resources d project) [''order'']) (db_resources d1)"
    by (auto simp: bulk_update_resources_def ro split: sum.splits)
  with res have "project_resources d' project =
      map (write_resource (reorder_resources d project) [''order'']) (project_resources d1 project)"
    by (simp add: project_resources_def filter_map comp_def write_resource_same)
  with pr1 show ?thesis by simp
qed

text \<open>What the recomputation of \<open>order\<close> reaches: after \<open>add_resources\<close> has inserted
  resources, the rows of \<open>project.resources\<close> taken by ascending path carry the orders
  \<open>0, 1, ..., N-1\<close>, where \<open>N\<close> is their number (primary keys distinct).\<close>

lemma add_resources_order:
  assumes "add_resources ev d project locale_map updates changed_paths now = Inr (d', added)"
    and "added \<noteq> []"
    and "distinct (map r_id (db_resources d))"
  shows "map r_order (sort_key r_path (project_resources d' project))
           = [0..<length (project_resources d' project)]"
proof -
  define P where "P = project_resources d project"
  define S where "S = sort_key r_path P"
  define w where "w = write_resource (reorder_resources d project) [''order'']"
  have pr: "project_resources d' project = map w P"
    unfolding w_def P_def by (rule add_resources_project_resources [OF assms(1,2)])
  have "distinct (map r_id P)"
    unfolding P_def project_resources_def using assms(3) by (rule distinct_map_filter)
  then have dS: "distinct (map r_id S)"
    unfolding S_def by (metis distinct_map distinct_sort set_sort)
  have objs: "reorder_resources d project = map (\<lambda>(idx, r). r\<lparr>r_order := idx\<rparr>) (enumerate 0 S)"
    by (simp add: reorder_resources_def S_def P_def)
  have sorted: "sort_key r_path (map w P) = map w S"
    unfolding S_def w_def by (rule sort_key_map_same) (rule write_resource_same)
  have "map r_order (map w S) = [0..<length S]"
  proof (rule nth_equalityI)
    show "length (map r_order (map w S)) = length [0..<length S]" by simp
  next
    fix i assume "i < length (map r_order (map w S))"
    then have i: "i < length S" by simp
    then show "map r_order (map w S) ! i = [0..<length S] ! i"
      using write_resource_reordered [OF dS i] by (simp add: w_def objs)
  qed
  then show ?thesis by (simp add: pr sorted S_def)
qed


lemma add_resources_order_example:
  "\<exists>d' added. add_resources ex_env ex_db_two 1 [] [(''new.ftl'', Some ex_parsed)] [] 7 = Inr (d', added)
      \<and> added \<noteq> [] \<and> distinct (map r_id (db_resources ex_db_two))
      \<and> map r_order (sort_key r_path (project_resources d' 1)) = [0..<length (project_resources d' 1)]"
proof -
  obtain d' added where run: "add_resources ex_env ex_db_two 1 [] [(''new.ftl'', Some ex_parsed)] [] 7 = Inr (d', added)"
    and ne: "added \<noteq> []"
    by (simp add: add_resources_def new_resources_def bulk_create_resources_def fresh_ids_def max_id_def
        reorder_resources_def project_resources_def bulk_update_resources_def bulk_update_check_def
        Resource_fields_def entity_from_source_def join_opt_def bulk_create_entities_def
        new_translated_resources_def ex_db_two_def ex_db_def ex_resource_def ex_env_def ex_parsed_def
        ex_tx_def Let_def)
  have dist: "distinct (map r_id (db_resources ex_db_two))"
    by (simp add: ex_db_two_def ex_resource_def)
  from add_resources_order [OF run ne dist] run ne dist show ?thesis by blast
qed

text \<open>The rows \<open>add_resources\<close> constructs carry no project.\<close>

lemma new_resources_no_project:
  "r \<in> set (new_resources ev updates changed_paths) \<Longrightarrow> r_project r = None"
  by (auto simp: new_resources_def split: option.splits if_splits)


text \<open>In a sync, \<open>add_resources\<close> is not reached with anything to add: \<open>update_resources\<close>
  runs before it on the same \<open>updates\<close> and raises unless they are empty.\<close>

lemma sync_entities_from_repo_adds_nothing:
  assumes "sync_entities_from_repo ev d project locale_map rroot paths remove now = Inr (d', a, c, r)"
  shows "a = [] \<and> c = []"
proof -
  from assms obtain sl where sl: "source_locale ev = Some sl"
    by (cases "source_locale ev") (simp_all add: sync_entities_from_repo_def)
  from assms sl obtain updates where bu: "build_updates ev rroot paths [] = Inr updates"
    by (cases "build_updates ev rroot paths []") (simp_all add: sync_entities_from_repo_def)
  obtain d1 removed_paths where rr: "remove_resources ev d project rroot remove = (d1, removed_paths)"
    by (cases "remove_resources ev d project rroot remove")
  have "updates = []"
  proof (rule ccontr)
    assume "updates \<noteq> []"
    from update_resources_nonempty_raises [OF this, of d1 project now] obtain err where
      "update_resources d1 project updates now = Inl err" by blast
    with assms sl bu rr show False
      by (simp add: sync_entities_from_repo_def)
  qed
  with assms sl bu rr show ?thesis
    by (simp add: sync_entities_from_repo_def update_resources_def add_resources_def new_resources_def)
qed

section \<open>Claims on the translation reconciler\<close>

lemmas update_db_translations_unfold =
  update_db_translations_def find_suggestions_def matching_suggestions_q_def
  approve_suggestion_def get_dirty_fields_def bulk_update_translations_def bulk_update_check_def
  Translation_fields_def write_translation_def set_translation_column_def
  bulk_create_translations_def new_translations_def new_translation_def fresh_ids_def max_id_def
  to_reject_def reject_def ex_db_with_def ex_db_def ex_env_def ex_suggestion_def ex_approved_def
  Let_def

text \<open>
  C5 (approve matching suggestions). The claim wants every matching suggestion approved,
  also when several of them share one \<open>(entity, locale)\<close> key. The loop reads
  \<open>repo_translations[key]\<close> and deletes the key for each suggestion: at the second
  suggestion of a key the read raises \<open>KeyError\<close>. Here the repository has two plural
  forms of entity 1 in locale 1, and the database holds both as suggestions.
\<close>

theorem update_db_translations_two_plural_suggestions:
  "update_db_translations ex_env
     (ex_db_with [ex_suggestion 1 ''a'' (Some 0), ex_suggestion 2 ''b'' (Some 1)])
     [((1, 1), ([(Some 0, ''a''), (Some 1, ''b'')], False))] 7 = Inl KeyError"
  by (simp add: update_db_translations_unfold)

text \<open>
  C3 (at most one active). The claim wants at most one active translation per
  \<open>(entity, locale, plural_form)\<close> after \<open>update_db_translations\<close>. A suggestion that
  matches a fuzzy repository entry is made active, but its siblings are scheduled for
  rejection only when the entry is not fuzzy (the path that creates translations
  schedules them for fuzzy entries too). Here \<open>A\<close> is approved and active, \<open>B\<close> is a
  suggestion, and the repository has \<open>B\<close> as fuzzy: afterwards both are active.
\<close>

theorem update_db_translations_two_active:
  "\<exists>d'. update_db_translations ex_env
           (ex_db_with [ex_approved 1 ''A'' None, ex_suggestion 2 ''B'' None])
           [((1, 1), ([(None, ''B'')], True))] 7 = Inr d'
      \<and> active_count (ex_db_with [ex_approved 1 ''A'' None, ex_suggestion 2 ''B'' None]) 1 1 None = 1
      \<and> active_count d' 1 1 None = 2"
  by (simp add: update_db_translations_unfold active_count_def)

text \<open>
  C7 (timestamp coherence). The claim wants \<open>created_at = now\<close> on every action log row.
  Only the \<open>TRANSLATION_CREATED\<close> rows are constructed with \<open>created_at=now\<close>; the
  approved, unrejected and rejected rows are constructed without it and take the
  default of the model. Here the sync approves suggestion \<open>B\<close>, creates \<open>C\<close> and rejects
  \<open>A\<close>, at \<open>now = 7\<close>.
\<close>

theorem update_db_translations_action_log_created_at:
  "\<exists>d'. update_db_translations ex_env
           (ex_db_with [ex_approved 1 ''A'' None, ex_suggestion 2 ''B'' None])
           [((1, 1), ([(None, ''B'')], False)), ((2, 1), ([(None, ''C'')], False))] 7 = Inr d'
      \<and> db_action_logs d' =
           [\<lparr>action_type = TRANSLATION_APPROVED, created_at = None, performed_by = 0,
               al_translation = Some 2\<rparr>,
            \<lparr>action_type = TRANSLATION_CREATED, created_at = Some 7, performed_by = 0,
               al_translation = Some 3\<rparr>,
            \<lparr>action_type = TRANSLATION_REJECTED, created_at = None, performed_by = 0,
               al_translation = Some 1\<rparr>]"
  by (simp add: update_db_translations_unfold)

subsection \<open>What a sync leaves alone\<close>

lemma filter_map_unchanged:
  assumes "\<And>x. x \<in> set xs \<Longrightarrow> P (w x) = P x" and "\<And>x. x \<in> set xs \<Longrightarrow> P x \<Longrightarrow> w x = x"
  shows "filter P (map w xs) = filter P xs"
  using assms by (induction xs) auto

lemma set_delete_subset: "set (AList.delete k al) \<subseteq> set al"
  by (auto simp: AList.delete_eq)

lemma approve_suggestion_same:
  "approve_suggestion user now fz tx = (tx', rej, acts) \<Longrightarrow>
     t_id tx' = t_id tx \<and> (\<forall>(eid, lid, pf, i) \<in> set rej. eid = entity_id tx \<and> lid = locale_id tx)"
  by (auto simp: approve_suggestion_def Let_def split: if_splits)

lemma get_dirty_fields_names: "set (get_dirty_fields loaded tx) \<subseteq> dirty_names"
  by (auto simp: get_dirty_fields_def dirty_names_def)

lemma approve_suggestions_sound:
  "approve_suggestions user now txs rt = Inr (rest, txs', rej, acts, dirty) \<Longrightarrow>
     (\<forall>tx \<in> set txs. (entity_id tx, locale_id tx) \<in> fst ` set rt)
     \<and> map t_id txs' = map t_id txs
     \<and> fst ` set rest \<subseteq> fst ` set rt
     \<and> (\<forall>q \<in> set rej. (fst q, fst (snd q)) \<in> fst ` set rt)
     \<and> set dirty \<subseteq> dirty_names"
proof (induction txs arbitrary: rt rest txs' rej acts dirty)
  case Nil
  then show ?case by simp
next
  case (Cons tx txs)
  define key where "key = (entity_id tx, locale_id tx)"
  show ?case
  proof (cases "map_of rt key")
    case None
    with Cons.prems show ?thesis by (simp add: key_def)
  next
    case (Some sf)
    obtain strs fz where sf: "sf = (strs, fz)" by (cases sf)
    obtain tx' rej0 acts0 where ap: "approve_suggestion user now fz tx = (tx', rej0, acts0)"
      by (rule prod_cases3)
    show ?thesis
    proof (cases "approve_suggestions user now txs (AList.delete key rt)")
      case (Inl e)
      with Cons.prems Some sf ap show ?thesis by (simp add: key_def)
    next
      case (Inr r)
      obtain rest1 txs1 rej1 acts1 dirty1 where r: "r = (rest1, txs1, rej1, acts1, dirty1)"
        by (rule prod_cases5)
      from Cons.prems Some sf ap Inr r have
        eqs: "rest = rest1" "txs' = tx' # txs1" "rej = rej0 @ rej1"
             "dirty = get_dirty_fields tx tx' @ dirty1"
        by (simp_all add: key_def)
      from Inr r have rec: "approve_suggestions user now txs (AList.delete key rt)
                              = Inr (rest1, txs1, rej1, acts1, dirty1)" by simp
      note ih = Cons.IH [OF rec]
      have sub: "fst ` set (AList.delete key rt) \<subseteq> fst ` set rt"
        using set_delete_subset [of key rt] by (rule image_mono)
      from Some have "(key, sf) \<in> set rt" by (rule map_of_SomeD)
      then have keyin: "key \<in> fst ` set rt" by force
      from approve_suggestion_same [OF ap] have
        id: "t_id tx' = t_id tx" and
        r0: "\<forall>(eid, lid, pf, i) \<in> set rej0. eid = entity_id tx \<and> lid = locale_id tx"
        by blast+
      have r0': "\<forall>q \<in> set rej0. (fst q, fst (snd q)) = key"
        using r0 by (auto simp: key_def)
      show ?thesis
      proof (intro conjI)
        show "\<forall>tx \<in> set (tx # txs). (entity_id tx, locale_id tx) \<in> fst ` set rt"
        proof
          fix t assume "t \<in> set (tx # txs)"
          then consider "t = tx" | "t \<in> set txs" by auto
          then show "(entity_id t, locale_id t) \<in> fst ` set rt"
          proof cases
            case 1
            with keyin show ?thesis by (simp add: key_def)
          next
            case 2
            with ih have "(entity_id t, locale_id t) \<in> fst ` set (AList.delete key rt)" by blast
            with sub show ?thesis by blast
          qed
        qed
        show "map t_id txs' = map t_id (tx # txs)" using ih id eqs(2) by simp
        show "fst ` set rest \<subseteq> fst ` set rt" using ih sub eqs(1) by blast
        show "\<forall>q \<in> set rej. (fst q, fst (snd q)) \<in> fst ` set rt"
        proof
          fix q assume "q \<in> set rej"
          with eqs(3) consider "q \<in> set rej0" | "q \<in> set rej1" by auto
          then show "(fst q, fst (snd q)) \<in> fst ` set rt"
          proof cases
            case 1
            with r0' keyin show ?thesis by simp
          next
            case 2
            with ih have "(fst q, fst (snd q)) \<in> fst ` set (AList.delete key rt)" by blast
            with sub show ?thesis by blast
          qed
        qed
        show "set dirty \<subseteq> dirty_names"
          using ih eqs(4) get_dirty_fields_names [of tx tx'] by simp
      qed
    qed
  qed
qed

lemma dirty_names_key: "''entity'' \<notin> dirty_names" "''locale'' \<notin> dirty_names"
  by (simp_all add: dirty_names_def)

lemma set_translation_column_key:
  assumes "name \<noteq> ''entity''" and "name \<noteq> ''locale''"
  shows "entity_id (set_translation_column obj name row) = entity_id row"
    and "locale_id (set_translation_column obj name row) = locale_id row"
  using assms by (simp_all add: set_translation_column_def)

lemma fold_set_translation_column_key:
  assumes "''entity'' \<notin> set names" and "''locale'' \<notin> set names"
  shows "entity_id (fold (set_translation_column obj) names row) = entity_id row
     \<and> locale_id (fold (set_translation_column obj) names row) = locale_id row"
  using assms
proof (induction names arbitrary: row)
  case Nil
  then show ?case by simp
next
  case (Cons name names)
  then have ne: "name \<noteq> ''entity''" "name \<noteq> ''locale''" by auto
  from Cons have "entity_id (fold (set_translation_column obj) names (set_translation_column obj name row))
        = entity_id (set_translation_column obj name row)
     \<and> locale_id (fold (set_translation_column obj) names (set_translation_column obj name row))
        = locale_id (set_translation_column obj name row)"
    by simp
  with set_translation_column_key [OF ne] show ?case by simp
qed

lemma write_translation_key:
  assumes "set names \<subseteq> dirty_names"
  shows "entity_id (write_translation objs names row) = entity_id row"
    and "locale_id (write_translation objs names row) = locale_id row"
proof -
  from assms dirty_names_key have "''entity'' \<notin> set names" "''locale'' \<notin> set names" by auto
  from fold_set_translation_column_key [OF this]
  show "entity_id (write_translation objs names row) = entity_id row"
    and "locale_id (write_translation objs names row) = locale_id row"
    by (simp_all add: write_translation_def split: option.splits)
qed

lemma write_translation_not_found:
  assumes "t_id row \<notin> set (map t_id objs)"
  shows "write_translation objs names row = row"
proof -
  have "\<not> (\<exists>x. x \<in> set objs \<and> t_id x = t_id row)"
  proof
    assume "\<exists>x. x \<in> set objs \<and> t_id x = t_id row"
    then obtain x where x: "x \<in> set objs" and eq: "t_id x = t_id row" by blast
    from x have "t_id x \<in> t_id ` set objs" by (rule imageI)
    with eq have "t_id row \<in> set (map t_id objs)" by simp
    with assms show False by contradiction
  qed
  then have "find (\<lambda>obj. t_id obj = t_id row) objs = None"
    unfolding find_None_iff by blast
  then show ?thesis by (simp add: write_translation_def)
qed

lemma new_translations_keys:
  assumes "t \<in> set (new_translations now rt)"
  shows "(entity_id t, locale_id t) \<in> fst ` set rt"
proof -
  from assms obtain eid lid strs fz pf str where
    mem: "((eid, lid), (strs, fz)) \<in> set rt" and
    t: "t = (if fz then (new_translation eid lid str pf now)\<lparr>t_fuzzy := True\<rparr>
             else (new_translation eid lid str pf now)\<lparr>approved := True, approved_date := Some now\<rparr>)"
    unfolding new_translations_def by auto
  from t have "entity_id t = eid" "locale_id t = lid"
    by (simp_all add: new_translation_def split: if_splits)
  with mem show ?thesis by force
qed

lemma bulk_create_translations_rows:
  assumes "bulk_create_translations d objs = (d', created)"
  shows "db_translations d' = db_translations d @ created"
    and "\<And>t. t \<in> set created \<Longrightarrow>
           \<exists>obj \<in> set objs. entity_id t = entity_id obj \<and> locale_id t = locale_id obj"
proof -
  define ids where "ids = fresh_ids (map t_id (db_translations d)) (length objs)"
  from assms have c: "created = map (\<lambda>(obj, i). obj\<lparr>t_id := Some i\<rparr>) (zip objs ids)"
    and d': "d' = d\<lparr>db_translations := db_translations d @ created\<rparr>"
    by (auto simp: bulk_create_translations_def Let_def ids_def)
  from d' show "db_translations d' = db_translations d @ created" by simp
  fix t assume "t \<in> set created"
  with c obtain obj i where "(obj, i) \<in> set (zip objs ids)" and "t = obj\<lparr>t_id := Some i\<rparr>"
    by auto
  then show "\<exists>obj \<in> set objs. entity_id t = entity_id obj \<and> locale_id t = locale_id obj"
    by (auto dest: set_zip_leftD)
qed

lemma to_reject_key:
  assumes "to_reject q t"
  shows "\<exists>x \<in> set q. fst x = entity_id t \<and> fst (snd x) = locale_id t"
proof -
  from assms obtain x where x: "x \<in> set q" and
    c: "(case x of (eid, lid, pf, i) \<Rightarrow> entity_id t = eid \<and> locale_id t = lid \<and> plural_form t = pf \<and> t_id t \<noteq> i)"
    unfolding to_reject_def by blast
  obtain eid lid pf i where "x = (eid, lid, pf, i)" by (rule prod_cases4)
  with c have "fst x = entity_id t" "fst (snd x) = locale_id t" by simp_all
  with x show ?thesis by blast
qed

lemma reject_key: "entity_id (reject now t) = entity_id t" "locale_id (reject now t) = locale_id t"
  by (simp_all add: reject_def)

lemma distinct_map_eq:
  assumes "distinct (map f xs)" and "x \<in> set xs" and "y \<in> set xs" and "f x = f y"
  shows "x = y"
  using assms by (meson distinct_map inj_onD)

lemma find_suggestions_subset: "set (find_suggestions d rt) \<subseteq> set (db_translations d)"
  by (simp add: find_suggestions_def Let_def)

lemma update_db_translations_untouched:
  assumes run: "update_db_translations ev d rt now = Inr d'"
    and notin: "(e, l) \<notin> fst ` set rt"
    and dist: "distinct (map t_id (db_translations d))"
  shows "[t \<leftarrow> db_translations d'. entity_id t = e \<and> locale_id t = l]
           = [t \<leftarrow> db_translations d. entity_id t = e \<and> locale_id t = l]"
proof -
  define P where "P = (\<lambda>t::Translation. entity_id t = e \<and> locale_id t = l)"
  from run obtain user where user: "sync_user ev = Some user"
    by (cases "sync_user ev") (simp_all add: update_db_translations_def)
  define sg where "sg = find_suggestions d rt"
  from run user obtain r where ap0: "approve_suggestions user now sg rt = Inr r"
    by (cases "approve_suggestions user now sg rt") (simp_all add: update_db_translations_def sg_def)
  obtain rest sugg rej1 acts1 dirty where r: "r = (rest, sugg, rej1, acts1, dirty)"
    by (rule prod_cases5)
  from ap0 r have ap: "approve_suggestions user now sg rt = Inr (rest, sugg, rej1, acts1, dirty)" by simp
  from run user ap obtain d1 where bu: "bulk_update_translations d sugg (remdups dirty) = Inr d1"
    by (cases "bulk_update_translations d sugg (remdups dirty)")
       (simp_all add: update_db_translations_def sg_def)
  define dc where "dc = (if rest \<noteq> [] then bulk_create_translations d1 (new_translations now rest) else (d1, []))"
  obtain d2 created where dc2: "dc = (d2, created)" by (cases dc)
  define rej where "rej = rej1 @ map (\<lambda>tx. (entity_id tx, locale_id tx, plural_form tx, t_id tx)) created"
  define rows3 where "rows3 = (if rej \<noteq> [] then map (\<lambda>t. if to_reject rej t then reject now t else t) (db_translations d2)
                               else db_translations d2)"
  from dc2 have dc3: "(if rest \<noteq> [] then bulk_create_translations d1 (new_translations now rest)
                       else (d1, [])) = (d2, created)"
    by (simp add: dc_def)
  have d': "db_translations d' = rows3"
  proof (cases "rej = []")
    case True
    with run user ap [unfolded sg_def] bu dc3 show ?thesis
      unfolding update_db_translations_def rows3_def rej_def by (clarsimp simp: Let_def)
  next
    case False
    with run user ap [unfolded sg_def] bu dc3 show ?thesis
      unfolding update_db_translations_def rows3_def rej_def by (clarsimp simp: Let_def)
  qed
  note snd = approve_suggestions_sound [OF ap]
  from snd have keys_sg: "\<And>tx. tx \<in> set sg \<Longrightarrow> (entity_id tx, locale_id tx) \<in> fst ` set rt"
    and ids: "map t_id sugg = map t_id sg"
    and rest_sub: "fst ` set rest \<subseteq> fst ` set rt"
    and rej1_keys: "\<And>q. q \<in> set rej1 \<Longrightarrow> (fst q, fst (snd q)) \<in> fst ` set rt"
    and dirty: "set dirty \<subseteq> dirty_names"
    by blast+
  \<comment> \<open>the bulk update of the suggestions\<close>
  from bu have rows1: "db_translations d1 = map (write_translation sugg (remdups dirty)) (db_translations d)"
    by (cases "bulk_update_check Translation_fields (remdups dirty) (map t_id sugg)")
       (auto simp: bulk_update_translations_def)
  have step1: "filter P (db_translations d1) = filter P (db_translations d)"
    unfolding rows1
  proof (rule filter_map_unchanged)
    fix x assume "x \<in> set (db_translations d)"
    from dirty have "set (remdups dirty) \<subseteq> dirty_names" by simp
    from write_translation_key [OF this, of sugg x]
    show "P (write_translation sugg (remdups dirty) x) = P x" by (simp add: P_def)
  next
    fix x assume x: "x \<in> set (db_translations d)" and Px: "P x"
    have "t_id x \<notin> set (map t_id sugg)"
    proof
      assume "t_id x \<in> set (map t_id sugg)"
      with ids have "t_id x \<in> t_id ` set sg" by simp
      then obtain s where s: "s \<in> set sg" and eq: "t_id x = t_id s" by (rule imageE)
      from s find_suggestions_subset have "s \<in> set (db_translations d)" unfolding sg_def by blast
      from distinct_map_eq [OF dist x this eq] have "x = s" .
      with s keys_sg have "(entity_id x, locale_id x) \<in> fst ` set rt" by blast
      with Px notin show False by (simp add: P_def)
    qed
    then show "write_translation sugg (remdups dirty) x = x" by (rule write_translation_not_found)
  qed
  \<comment> \<open>the new translations\<close>
  have created_keys: "(entity_id t, locale_id t) \<in> fst ` set rt" if "t \<in> set created" for t
  proof (cases "rest \<noteq> []")
    case True
    with dc2 have bc: "bulk_create_translations d1 (new_translations now rest) = (d2, created)"
      by (simp add: dc_def)
    from bulk_create_translations_rows(2) [OF bc that] obtain obj where
      "obj \<in> set (new_translations now rest)" "entity_id t = entity_id obj" "locale_id t = locale_id obj"
      by blast
    with new_translations_keys [of obj now rest] rest_sub show ?thesis by auto
  next
    case False
    with dc2 that show ?thesis by (simp add: dc_def)
  qed
  have rows2: "db_translations d2 = db_translations d1 @ created"
  proof (cases "rest \<noteq> []")
    case True
    with dc2 have bc: "bulk_create_translations d1 (new_translations now rest) = (d2, created)"
      by (simp add: dc_def)
    from bulk_create_translations_rows(1) [OF bc] show ?thesis .
  next
    case False
    with dc2 show ?thesis by (simp add: dc_def)
  qed
  have "filter P created = []"
    unfolding filter_empty_conv
  proof
    fix t assume "t \<in> set created"
    from created_keys [OF this] notin show "\<not> P t" by (auto simp: P_def)
  qed
  with rows2 step1 have step2: "filter P (db_translations d2) = filter P (db_translations d)" by simp
  \<comment> \<open>the rejection of siblings\<close>
  have rej_keys: "(fst q, fst (snd q)) \<in> fst ` set rt" if "q \<in> set rej" for q
  proof -
    from that consider "q \<in> set rej1"
      | t where "t \<in> set created" "q = (entity_id t, locale_id t, plural_form t, t_id t)"
      unfolding rej_def by auto
    then show ?thesis
    proof cases
      case 1
      then show ?thesis by (rule rej1_keys)
    next
      case 2
      with created_keys [of t] show ?thesis by simp
    qed
  qed
  have step3: "filter P rows3 = filter P (db_translations d2)"
  proof (cases "rej \<noteq> []")
    case True
    have "filter P (map (\<lambda>t. if to_reject rej t then reject now t else t) (db_translations d2))
            = filter P (db_translations d2)"
    proof (rule filter_map_unchanged)
      fix x
      show "P (if to_reject rej x then reject now x else x) = P x"
        by (simp add: P_def reject_key)
    next
      fix x assume Px: "P x"
      have "\<not> to_reject rej x"
      proof
        assume "to_reject rej x"
        from to_reject_key [OF this] obtain q where "q \<in> set rej" "fst q = entity_id x"
          "fst (snd q) = locale_id x" by blast
        with rej_keys [of q] have "(entity_id x, locale_id x) \<in> fst ` set rt" by simp
        with Px notin show False by (simp add: P_def)
      qed
      then show "(if to_reject rej x then reject now x else x) = x" by simp
    qed
    with True show ?thesis by (simp add: rows3_def)
  next
    case False
    then show ?thesis by (simp add: rows3_def)
  qed
  from d' step3 step2 show ?thesis by (simp add: P_def)
qed

lemma set_fold_delete_subset: "set (fold AList.delete ks al) \<subseteq> set al"
proof (induction ks arbitrary: al)
  case Nil
  then show ?case by simp
next
  case (Cons k ks)
  have "set (fold AList.delete ks (AList.delete k al)) \<subseteq> set (AList.delete k al)" by (rule Cons.IH)
  with set_delete_subset [of k al] show ?case by auto
qed

lemma fold_delete_removes:
  "k \<in> set ks \<Longrightarrow> k \<notin> fst ` set (fold AList.delete ks al)"
proof (induction ks arbitrary: al)
  case Nil
  then show ?case by simp
next
  case (Cons k' ks)
  show ?case
  proof (cases "k = k'")
    case True
    have "k \<notin> fst ` set (AList.delete k al)" by (auto simp: AList.delete_eq)
    moreover have "set (fold AList.delete ks (AList.delete k al)) \<subseteq> set (AList.delete k al)"
      by (rule set_fold_delete_subset)
    ultimately show ?thesis using True by auto
  next
    case False
    with Cons.prems have "k \<in> set ks" by simp
    from Cons.IH [OF this] show ?thesis by simp
  qed
qed

lemma map_of_dict_of_mem: "map_of (dict_of kvs) k = Some v \<Longrightarrow> (k, v) \<in> set kvs"
  using set_dict_of_subset [of kvs] by (auto dest: map_of_SomeD)

lemma resolve_step_keys:
  assumes "(k, v) \<in> set (fold (\<lambda>((db_path, ent_key, lid), tx) res.
             case map_of ents (db_path, ent_key) of
               None \<Rightarrow> res
             | Some eid \<Rightarrow> AList.update (eid, lid) tx res) trs acc)"
  shows "(k, v) \<in> set acc \<or> (\<exists>db_path ent_key tx. ((db_path, ent_key, snd k), tx) \<in> set trs
            \<and> map_of ents (db_path, ent_key) = Some (fst k))"
  using assms
proof (induction trs arbitrary: acc)
  case Nil
  then show ?case by simp
next
  case (Cons x trs)
  obtain key tx where "x = (key, tx)" by (cases x)
  moreover obtain db_path ent_key lid where "key = (db_path, ent_key, lid)" by (rule prod_cases3)
  ultimately have x: "x = ((db_path, ent_key, lid), tx)" by simp
  define acc' where "acc' = (case map_of ents (db_path, ent_key) of
               None \<Rightarrow> acc | Some eid \<Rightarrow> AList.update (eid, lid) tx acc)"
  from Cons.prems have "(k, v) \<in> set (fold (\<lambda>((db_path, ent_key, lid), tx) res.
             case map_of ents (db_path, ent_key) of
               None \<Rightarrow> res
             | Some eid \<Rightarrow> AList.update (eid, lid) tx res) trs acc')"
    by (simp add: x acc'_def)
  from Cons.IH [OF this] consider "(k, v) \<in> set acc'"
    | "\<exists>db_path ent_key tx. ((db_path, ent_key, snd k), tx) \<in> set trs
            \<and> map_of ents (db_path, ent_key) = Some (fst k)" by blast
  then show ?case
  proof cases
    case 1
    show ?thesis
    proof (cases "map_of ents (db_path, ent_key)")
      case None
      with 1 show ?thesis by (simp add: acc'_def)
    next
      case (Some eid)
      with 1 have "(k, v) \<in> set (AList.update (eid, lid) tx acc)" by (simp add: acc'_def)
      with set_update_subset [of "(eid, lid)" tx acc] have "(k, v) = ((eid, lid), tx) \<or> (k, v) \<in> set acc"
        by auto
      then show ?thesis
      proof
        assume "(k, v) = ((eid, lid), tx)"
        with Some x show ?thesis by auto
      next
        assume "(k, v) \<in> set acc"
        then show ?thesis by simp
      qed
    qed
  next
    case 2
    then show ?thesis by auto
  qed
qed

lemma resolve_entities_keys:
  assumes "k \<in> fst ` set (resolve_entities ents trs)"
  shows "\<exists>db_path ent_key. (db_path, ent_key, snd k) \<in> fst ` set trs
            \<and> map_of ents (db_path, ent_key) = Some (fst k)"
proof -
  from assms obtain v where "(k, v) \<in> set (resolve_entities ents trs)" by auto
  from resolve_step_keys [OF this [unfolded resolve_entities_def]]
  obtain db_path ent_key tx where "((db_path, ent_key, snd k), tx) \<in> set trs"
    "map_of ents (db_path, ent_key) = Some (fst k)" by auto
  then show ?thesis by force
qed

lemma entity_q_sound:
  "entity_q resources keys = Inr q \<Longrightarrow> x \<in> set q \<Longrightarrow>
     \<exists>db_path res. map_of resources db_path = Some res \<and> fst x = r_id res"
proof (induction keys arbitrary: q)
  case Nil
  then show ?case by simp
next
  case (Cons key keys)
  obtain db_path ent_key lid where key: "key = (db_path, ent_key, lid)" by (rule prod_cases3)
  from Cons.prems(1) obtain res where res: "map_of resources db_path = Some res"
    by (cases "map_of resources db_path") (simp_all add: key)
  from Cons.prems(1) res obtain q' where q': "entity_q resources keys = Inr q'"
    by (cases "entity_q resources keys") (simp_all add: key)
  from Cons.prems(1) res q' have q: "q = (r_id res, ent_key) # q'" by (simp add: key)
  with Cons.prems(2) consider "x = (r_id res, ent_key)" | "x \<in> set q'" by auto
  then show ?case
  proof cases
    case 1
    with res show ?thesis by auto
  next
    case 2
    from Cons.IH [OF q' this] show ?thesis .
  qed
qed

lemma matching_entities_sound:
  assumes "map_of (matching_entities d q) (p, k) = Some eid"
  shows "\<exists>en r x. en \<in> set (db_entities d) \<and> e_id en = Some eid
           \<and> r \<in> set (db_resources d) \<and> r_id r = e_resource en
           \<and> p = r_path r \<and> k = py_or_str (e_key en) (e_string en)
           \<and> x \<in> set q \<and> fst x = e_resource en"
proof -
  define sel where "sel = (\<lambda>e::Entity. \<exists>(rid, ent_key) \<in> set q. e_resource e = rid
        \<and> (e_key e = ent_key \<or> (e_key e = [] \<and> e_string e = ent_key)))"
  define F where "F = (\<lambda>e::Entity. case e_id e of
          None \<Rightarrow> []
        | Some i \<Rightarrow>
            map (\<lambda>r. ((r_path r, py_or_str (e_key e) (e_string e)), i))
                [r \<leftarrow> db_resources d. r_id r = e_resource e])"
  have me: "matching_entities d q = dict_of (concat (map F [e \<leftarrow> db_entities d. sel e]))"
    by (simp add: matching_entities_def F_def sel_def)
  from assms have "((p, k), eid) \<in> set (concat (map F [e \<leftarrow> db_entities d. sel e]))"
    unfolding me by (rule map_of_dict_of_mem)
  then obtain en where en: "en \<in> set (db_entities d)" and sel: "sel en" and mem: "((p, k), eid) \<in> set (F en)"
    by auto
  from mem obtain i where i: "e_id en = Some i" and
    mem': "((p, k), eid) \<in> set (map (\<lambda>r. ((r_path r, py_or_str (e_key en) (e_string en)), i))
                [r \<leftarrow> db_resources d. r_id r = e_resource en])"
    by (cases "e_id en") (simp_all add: F_def)
  from mem' obtain r where r: "r \<in> set (db_resources d)" "r_id r = e_resource en"
    and eq: "((p, k), eid) = ((r_path r, py_or_str (e_key en) (e_string en)), i)"
    by auto
  from sel obtain x where x: "x \<in> set q" and cx: "case x of (rid, ent_key) \<Rightarrow> e_resource en = rid
        \<and> (e_key en = ent_key \<or> (e_key en = [] \<and> e_string en = ent_key))"
    unfolding sel_def by blast
  have fx: "fst x = e_resource en" using cx by (cases x) simp
  from eq have "p = r_path r" "k = py_or_str (e_key en) (e_string en)" "eid = i" by simp_all
  with en i r x fx have "en \<in> set (db_entities d) \<and> e_id en = Some eid
           \<and> r \<in> set (db_resources d) \<and> r_id r = e_resource en
           \<and> p = r_path r \<and> k = py_or_str (e_key en) (e_string en)
           \<and> x \<in> set q \<and> fst x = e_resource en" by simp
  then show ?thesis by blast
qed

lemma changed_keys_mem:
  assumes "(e, l) \<in> set (db_changed_entity_locales d)" and "en \<in> set (db_entities d)"
    and "e_id en = Some e" and "r \<in> set (db_resources d)" and "r_id r = e_resource en"
    and "r_project r = Some project"
  shows "(r_path r, py_or_str (e_key en) (e_string en), l) \<in> set (changed_keys d project)"
proof -
  define G where "G = (\<lambda>(lid::nat) (e::Entity). map (\<lambda>r. (r_path r, py_or_str (e_key e) (e_string e), lid))
              [r \<leftarrow> db_resources d. r_id r = e_resource e \<and> r_project r = Some project])"
  define H where "H = (\<lambda>(eid, lid). concat (map (G lid) [e' \<leftarrow> db_entities d. e_id e' = Some eid]))"
  have ck: "changed_keys d project = concat (map H (db_changed_entity_locales d))"
    by (simp add: changed_keys_def H_def G_def)
  from assms(4-6) have "(r_path r, py_or_str (e_key en) (e_string en), l) \<in> set (G l en)"
    by (simp add: G_def)
  moreover from assms(2,3) have "en \<in> set [e' \<leftarrow> db_entities d. e_id e' = Some e]" by simp
  ultimately have "(r_path r, py_or_str (e_key en) (e_string en), l) \<in> set (H (e, l))"
    unfolding H_def by (simp only: prod.case set_concat set_map) blast
  with assms(1) show ?thesis unfolding ck by (simp only: set_concat set_map) blast
qed

lemma find_updates_excludes_changed:
  assumes fu: "find_updates_from_repo_to_db ev d project locales checkouts ref_checkout = Inr (Some res)"
    and cel: "(e, l) \<in> set (db_changed_entity_locales d)"
    and dist: "distinct (map r_id (db_resources d))"
  shows "(e, l) \<notin> fst ` set res"
proof
  assume mem: "(e, l) \<in> fst ` set res"
  obtain resource_paths translated_resources trs0 where
    cc: "collect_changed ev locales checkouts ref_checkout = (resource_paths, translated_resources, trs0)"
    by (rule prod_cases3)
  define resources where "resources = resources_by_path d project resource_paths"
  define trs1 where "trs1 = strip_matches d (translated_q resources translated_resources) trs0"
  define trs2 where "trs2 = drop_changed d project trs1"
  from fu cc obtain q where q: "entity_q resources (map fst trs2) = Inr q"
    and res: "res = resolve_entities (matching_entities d q) trs2"
    unfolding find_updates_from_repo_to_db_def
    by (simp add: Let_def resources_def [symmetric] trs1_def [symmetric] trs2_def [symmetric]
             split: if_splits sum.splits)
  from resolve_entities_keys [OF mem [unfolded res]] obtain db_path ent_key where
    key: "(db_path, ent_key, l) \<in> fst ` set trs2" and
    ent: "map_of (matching_entities d q) (db_path, ent_key) = Some e"
    by auto
  from matching_entities_sound [OF ent] obtain en r x where
    en: "en \<in> set (db_entities d)" "e_id en = Some e" and
    r: "r \<in> set (db_resources d)" "r_id r = e_resource en" and
    pk: "db_path = r_path r" "ent_key = py_or_str (e_key en) (e_string en)" and
    x: "x \<in> set q" "fst x = e_resource en"
    by blast
  from entity_q_sound [OF q x(1)] obtain p' res' where
    res': "map_of resources p' = Some res'" "fst x = r_id res'" by blast
  define rs where "rs = [r \<leftarrow> db_resources d. r_project r = Some project \<and> r_path r \<in> set resource_paths]"
  from res'(1) have "(p', res') \<in> set (map (\<lambda>r. (r_path r, r)) rs)"
    unfolding resources_def resources_by_path_def rs_def by (rule map_of_dict_of_mem)
  then have "res' \<in> set rs" by auto
  then have in_db: "res' \<in> set (db_resources d)" and proj: "r_project res' = Some project"
    by (simp_all add: rs_def)
  from res'(2) x(2) r(2) have "r_id r = r_id res'" by simp
  from distinct_map_eq [OF dist r(1) in_db this] have "r = res'" .
  with proj have "r_project r = Some project" by simp
  from changed_keys_mem [OF cel en r this] pk
  have "(db_path, ent_key, l) \<in> set (changed_keys d project)" by simp
  from fold_delete_removes [OF this, of trs1] key show False by (simp add: trs2_def drop_changed_def)
qed

lemma delete_removed_translated_resources_rows:
  "db_translations (delete_removed_translated_resources ev d project checkouts ref_checkout) = db_translations d"
  "db_resources (delete_removed_translated_resources ev d project checkouts ref_checkout) = db_resources d"
  "db_entities (delete_removed_translated_resources ev d project checkouts ref_checkout) = db_entities d"
  "db_action_logs (delete_removed_translated_resources ev d project checkouts ref_checkout) = db_action_logs d"
  "db_changed_entity_locales (delete_removed_translated_resources ev d project checkouts ref_checkout)
     = db_changed_entity_locales d"
  by (simp_all add: delete_removed_translated_resources_def Let_def)

lemma sync_translations_database_wins:
  assumes run: "sync_translations_from_repo ev d project locales checkouts ref_checkout now = Inr d'"
    and cel: "(e, l) \<in> set (db_changed_entity_locales d)"
    and dr: "distinct (map r_id (db_resources d))"
    and dt: "distinct (map t_id (db_translations d))"
  shows "[t \<leftarrow> db_translations d'. entity_id t = e \<and> locale_id t = l]
           = [t \<leftarrow> db_translations d. entity_id t = e \<and> locale_id t = l]"
proof -
  define d1 where "d1 = delete_removed_translated_resources ev d project checkouts ref_checkout"
  note rows = delete_removed_translated_resources_rows [of ev d project checkouts ref_checkout, folded d1_def]
  show ?thesis
  proof (cases "find_updates_from_repo_to_db ev d1 project locales checkouts ref_checkout")
    case (Inl err)
    with run show ?thesis by (simp add: sync_translations_from_repo_def d1_def [symmetric])
  next
    case (Inr found)
    show ?thesis
    proof (cases found)
      case None
      with run Inr have "d' = d1" by (simp add: sync_translations_from_repo_def d1_def [symmetric])
      with rows(1) show ?thesis by simp
    next
      case (Some rt)
      show ?thesis
      proof (cases "rt = []")
        case True
        with run Inr Some have "d' = d1" by (simp add: sync_translations_from_repo_def d1_def [symmetric])
        with rows(1) show ?thesis by simp
      next
        case False
        with run Inr Some have up: "update_db_translations ev d1 rt now = Inr d'"
          by (simp add: sync_translations_from_repo_def d1_def [symmetric])
        from Inr Some have fu: "find_updates_from_repo_to_db ev d1 project locales checkouts ref_checkout = Inr (Some rt)"
          by simp
        from cel rows(5) have cel1: "(e, l) \<in> set (db_changed_entity_locales d1)" by simp
        from dr rows(2) have dr1: "distinct (map r_id (db_resources d1))" by simp
        from dt rows(1) have dt1: "distinct (map t_id (db_translations d1))" by simp
        from find_updates_excludes_changed [OF fu cel1 dr1] have "(e, l) \<notin> fst ` set rt" .
        from update_db_translations_untouched [OF up this dt1] rows(1) show ?thesis by simp
      qed
    qed
  qed
qed

lemma build_updates_nonempty:
  "build_updates ev rroot paths updates = Inr updates' \<Longrightarrow> paths \<noteq> [] \<or> updates \<noteq> [] \<Longrightarrow> updates' \<noteq> []"
proof (induction paths arbitrary: updates)
  case Nil
  then show ?case by simp
next
  case (Cons path paths)
  define db_path where "db_path = relpath ev (strip_pot path) rroot"
  have ne: "AList.update db_path v updates \<noteq> []" for v
    by (cases updates) (auto split: if_splits)
  show ?case
  proof (cases "parse_source ev path")
    case (Inl err)
    with Cons.prems(1) have err: "err = ParseError"
      by (cases err) (simp_all add: Let_def)
    with Cons.prems(1) Inl have "build_updates ev rroot paths (AList.update db_path None updates) = Inr updates'"
      by (simp add: db_path_def Let_def)
    from Cons.IH [OF this] ne show ?thesis by simp
  next
    case (Inr res)
    with Cons.prems(1) have "build_updates ev rroot paths (AList.update db_path (Some res) updates) = Inr updates'"
      by (simp add: db_path_def Let_def)
    from Cons.IH [OF this] ne show ?thesis by simp
  qed
qed

lemma remove_resources_rows:
  "\<exists>Q R. db_translations (fst (remove_resources ev d project rroot remove)) = filter Q (db_translations d)
       \<and> db_resources (fst (remove_resources ev d project rroot remove)) = filter R (db_resources d)
       \<and> db_changed_entity_locales (fst (remove_resources ev d project rroot remove))
            = db_changed_entity_locales d"
proof -
  have keep: "\<exists>Q R. db_translations d = filter Q (db_translations d)
       \<and> db_resources d = filter R (db_resources d)
       \<and> db_changed_entity_locales d = db_changed_entity_locales d"
    by (intro exI [of _ "\<lambda>_. True"]) simp
  have del: "\<exists>Q R. db_translations (delete_resources d rs) = filter Q (db_translations d)
       \<and> db_resources (delete_resources d rs) = filter R (db_resources d)
       \<and> db_changed_entity_locales (delete_resources d rs) = db_changed_entity_locales d" for rs
    unfolding delete_resources_def Let_def by (simp del: set_map) blast
  show ?thesis
    unfolding remove_resources_def Let_def using keep del by (simp split: if_splits)
qed

lemma sync_entities_from_repo_removes_only:
  assumes "sync_entities_from_repo ev d project locale_map rroot paths remove now = Inr (d', a, c, r)"
  shows "d' = fst (remove_resources ev d project rroot remove)"
proof -
  from assms obtain sl where "source_locale ev = Some sl"
    by (cases "source_locale ev") (simp_all add: sync_entities_from_repo_def)
  moreover from assms this obtain updates where bu: "build_updates ev rroot paths [] = Inr updates"
    by (cases "build_updates ev rroot paths []") (simp_all add: sync_entities_from_repo_def)
  moreover obtain d1 removed_paths where rr: "remove_resources ev d project rroot remove = (d1, removed_paths)"
    by (cases "remove_resources ev d project rroot remove")
  moreover have "updates = []"
  proof (rule ccontr)
    assume "updates \<noteq> []"
    from update_resources_nonempty_raises [OF this, of d1 project now] obtain err where
      "update_resources d1 project updates now = Inl err" by blast
    with assms \<open>source_locale ev = Some sl\<close> bu rr show False
      by (simp add: sync_entities_from_repo_def)
  qed
  ultimately show ?thesis using assms
    by (simp add: sync_entities_from_repo_def update_resources_def add_resources_def new_resources_def)
qed

text \<open>
  C2 (database wins). If a \<open>ChangedEntityLocale\<close> row for \<open>(e, l)\<close> exists when the sync
  starts, the translations of \<open>(e, l)\<close> after the sync are translations of \<open>(e, l)\<close> from
  before it, unchanged and in their order: none is created and none is modified (the
  removal of a resource may delete some, with their entity). Primary keys of resources
  and of translations are taken to be distinct.
\<close>

theorem sync_project_database_wins:
  assumes run: "sync_project ev d project locale_map checkouts ref_checkout now = Inr d'"
    and cel: "(e, l) \<in> set (db_changed_entity_locales d)"
    and dr: "distinct (map r_id (db_resources d))"
    and dt: "distinct (map t_id (db_translations d))"
  shows "subseq [t \<leftarrow> db_translations d'. entity_id t = e \<and> locale_id t = l]
                [t \<leftarrow> db_translations d. entity_id t = e \<and> locale_id t = l]"
proof -
  define rroot where "rroot = relpath ev (ref_root ev) (co_path ref_checkout)"
  from run obtain res where se: "sync_entities_from_repo ev d project locale_map rroot
      (co_changed ref_checkout) (co_removed ref_checkout) now = Inr res"
    by (cases "sync_entities_from_repo ev d project locale_map rroot
      (co_changed ref_checkout) (co_removed ref_checkout) now") (simp_all add: sync_project_def rroot_def)
  obtain d1 a c r where res: "res = (d1, a, c, r)" by (rule prod_cases4)
  from run se res have st: "sync_translations_from_repo ev d1 project locale_map checkouts ref_checkout now = Inr d'"
    by (simp add: sync_project_def rroot_def)
  from sync_entities_from_repo_removes_only [OF se [unfolded res]]
  have d1: "d1 = fst (remove_resources ev d project rroot (co_removed ref_checkout))" .
  from remove_resources_rows [of ev d project rroot "co_removed ref_checkout", folded d1]
  obtain Q R where t1: "db_translations d1 = filter Q (db_translations d)"
    and r1: "db_resources d1 = filter R (db_resources d)"
    and c1: "db_changed_entity_locales d1 = db_changed_entity_locales d" by blast
  from cel c1 have cel1: "(e, l) \<in> set (db_changed_entity_locales d1)" by simp
  from dr have dr1: "distinct (map r_id (db_resources d1))" unfolding r1 by (rule distinct_map_filter)
  from dt have dt1: "distinct (map t_id (db_translations d1))" unfolding t1 by (rule distinct_map_filter)
  have "filter (\<lambda>t. entity_id t = e \<and> locale_id t = l) (filter Q (db_translations d))
          = filter Q (filter (\<lambda>t. entity_id t = e \<and> locale_id t = l) (db_translations d))"
    by (simp add: conj_commute)
  with sync_translations_database_wins [OF st cel1 dr1 dt1]
  have "[t \<leftarrow> db_translations d'. entity_id t = e \<and> locale_id t = l]
          = filter Q [t \<leftarrow> db_translations d. entity_id t = e \<and> locale_id t = l]"
    by (simp only: t1)
  then show ?thesis by (simp only: subseq_filter_left)
qed

lemmas sync_unfold =
  sync_project_def sync_entities_from_repo_def remove_resources_def update_resources_def
  add_resources_def new_resources_def sync_translations_from_repo_def
  delete_removed_translated_resources_def del_q_def find_updates_from_repo_to_db_def
  collect_changed_def collect_path_def get_path_locale_def strip_pot_def endswith_def
  resources_by_path_def translated_q_def strip_matches_def matching_rows_def strip_match_def
  drop_changed_def changed_keys_def matching_entities_def resolve_entities_def dict_of_def
  py_or_str_def ex_env_de_def ex_db_de_def ex_ref_checkout_def ex_target_checkout_def ex_entity_def
  ex_resource_def

theorem sync_project_database_wins_witness:
  "\<exists>d'. sync_project ex_env_de ex_db_de 1 [(''de'', 1)]
          [ex_ref_checkout, ex_target_checkout [''de/app.ftl'']] ex_ref_checkout 7 = Inr d'
      \<and> (1, 1) \<in> set (db_changed_entity_locales ex_db_de)
      \<and> distinct (map r_id (db_resources ex_db_de))
      \<and> distinct (map t_id (db_translations ex_db_de))
      \<and> db_action_logs d' = [\<lparr>action_type = TRANSLATION_APPROVED, created_at = None,
                                performed_by = 0, al_translation = Some 2\<rparr>]
      \<and> subseq [t \<leftarrow> db_translations d'. entity_id t = 1 \<and> locale_id t = 1]
                 [t \<leftarrow> db_translations ex_db_de. entity_id t = 1 \<and> locale_id t = 1]"
proof -
  obtain d' where run: "sync_project ex_env_de ex_db_de 1 [(''de'', 1)]
          [ex_ref_checkout, ex_target_checkout [''de/app.ftl'']] ex_ref_checkout 7 = Inr d'"
    and logs: "db_action_logs d' = [\<lparr>action_type = TRANSLATION_APPROVED, created_at = None,
                                performed_by = 0, al_translation = Some 2\<rparr>]"
    by (simp add: sync_unfold update_db_translations_unfold)
  have cel: "(1, 1) \<in> set (db_changed_entity_locales ex_db_de)"
    by (simp add: ex_db_de_def)
  have dr: "distinct (map r_id (db_resources ex_db_de))"
    by (simp add: ex_db_de_def ex_db_def)
  have dt: "distinct (map t_id (db_translations ex_db_de))"
    by (simp add: ex_db_de_def ex_approved_def ex_suggestion_def)
  from sync_project_database_wins [OF run cel dr dt] run logs cel dr dt show ?thesis by blast
qed

subsection \<open>A sync without changes\<close>

lemma del_q_empty:
  assumes "\<forall>co \<in> set checkouts. co_removed co = []"
  shows "del_q ev checkouts ref_checkout = []"
proof -
  have "(if co \<noteq> ref_checkout then concat (map (removed_path_q ev co) (co_removed co)) else []) = []"
    if "co \<in> set checkouts" for co
  proof -
    from that assms have "co_removed co = []" by blast
    then show ?thesis by (simp only: list.map concat.simps if_cancel)
  qed
  then show ?thesis unfolding del_q_def by (simp only: concat_eq_Nil_conv set_map) blast
qed

lemma collect_changed_empty:
  assumes "\<forall>co \<in> set checkouts. co_changed co = []"
  shows "collect_changed ev locales checkouts ref_checkout = ([], [], [])"
proof -
  have "fold (\<lambda>co st. if co \<noteq> ref_checkout then fold (collect_path ev locales co) (co_changed co) st else st)
          checkouts st = st" for st
    using assms
  proof (induction checkouts arbitrary: st)
    case Nil
    show ?case by (simp only: fold.simps id_apply)
  next
    case (Cons co checkouts)
    then have c: "co_changed co = []" and r: "\<forall>co \<in> set checkouts. co_changed co = []" by simp_all
    have "(if co \<noteq> ref_checkout then fold (collect_path ev locales co) (co_changed co) st else st) = st"
      by (simp only: c fold.simps id_apply if_cancel)
    with Cons.IH [OF r] show ?case by (simp only: fold.simps comp_apply)
  qed
  then show ?thesis by (simp only: collect_changed_def)
qed

text \<open>A sync whose checkouts all have an empty delta (nothing changed, nothing removed)
  returns the database as it was.\<close>

lemma sync_project_no_changes:
  assumes "\<forall>co \<in> set checkouts. co_changed co = [] \<and> co_removed co = []"
    and "co_changed ref_checkout = []" and "co_removed ref_checkout = []"
    and "source_locale ev \<noteq> None"
  shows "sync_project ev d project locale_map checkouts ref_checkout now = Inr d"
proof -
  from assms(4) obtain sl where sl: "source_locale ev = Some sl" by blast
  have ents: "sync_entities_from_repo ev d project locale_map rroot [] [] now = Inr (d, [], [], [])" for rroot
    by (simp add: sync_entities_from_repo_def sl remove_resources_def update_resources_def
        add_resources_def new_resources_def)
  from assms(1) have rem: "\<forall>co \<in> set checkouts. co_removed co = []"
    and chg: "\<forall>co \<in> set checkouts. co_changed co = []" by blast+
  from del_q_empty [OF rem] have "del_q ev checkouts ref_checkout = []" .
  then have del: "delete_removed_translated_resources ev d project checkouts ref_checkout = d"
    by (simp add: delete_removed_translated_resources_def)
  from collect_changed_empty [OF chg]
  have "collect_changed ev locale_map checkouts ref_checkout = ([], [], [])" .
  then have "find_updates_from_repo_to_db ev d project locale_map checkouts ref_checkout = Inr None"
    by (simp add: find_updates_from_repo_to_db_def)
  with del have tr: "sync_translations_from_repo ev d project locale_map checkouts ref_checkout now = Inr d"
    by (simp add: sync_translations_from_repo_def)
  have "sync_project ev d project locale_map checkouts ref_checkout now
          = (case sync_entities_from_repo ev d project locale_map
                   (relpath ev (ref_root ev) (co_path ref_checkout)) [] [] now of
               Inl e \<Rightarrow> Inl e
             | Inr (d1, added, changed, removed) \<Rightarrow>
                 sync_translations_from_repo ev d1 project locale_map checkouts ref_checkout now)"
    by (simp only: sync_project_def assms(2,3))
  also have "\<dots> = Inr d" by (simp only: ents sum.case prod.case tr)
  finally show ?thesis .
qed

lemma sync_project_no_changes_example:
  "co_changed ex_ref_checkout = [] \<and> co_removed ex_ref_checkout = []
   \<and> co_changed (ex_target_checkout []) = [] \<and> co_removed (ex_target_checkout []) = []
   \<and> source_locale ex_env_de = Some 0
   \<and> sync_project ex_env_de ex_db_de 1 [(''de'', 1)] [ex_ref_checkout, ex_target_checkout []]
         ex_ref_checkout 7 = Inr ex_db_de"
proof -
  have h2: "co_changed ex_ref_checkout = []" and h3: "co_removed ex_ref_checkout = []"
    by (simp_all add: ex_ref_checkout_def)
  have h5: "co_changed (ex_target_checkout []) = []" and h6: "co_removed (ex_target_checkout []) = []"
    by (simp_all add: ex_target_checkout_def)
  from h2 h3 h5 h6
  have h1: "\<forall>co \<in> set [ex_ref_checkout, ex_target_checkout []]. co_changed co = [] \<and> co_removed co = []"
    by simp
  have sl: "source_locale ex_env_de = Some 0"
    by (simp add: ex_env_de_def ex_env_def)
  then have h4: "source_locale ex_env_de \<noteq> None" by simp
  from sync_project_no_changes [OF h1 h2 h3 h4] h2 h3 h5 h6 sl show ?thesis by blast
qed

text \<open>
  C1 (idempotence). The claim wants a second sync without repository changes to write
  nothing. The checkouts of the second sync have the delta of the first when no synced
  revision is recorded or the changed files cannot be listed (\<open>sync_project\<close> records
  none), so the same files are parsed again. Where no parsed entry has a string, the
  query of the matching suggestions is the empty \<open>Q()\<close>, which selects every
  suggestion: the first sync approves \<open>B\<close> and rejects \<open>A\<close>, the second unrejects and
  approves \<open>A\<close> and rejects \<open>B\<close>, and writes three more action log rows.
\<close>

theorem sync_project_twice_writes_again:
  "\<exists>d1 d2.
      sync_project ex_env_untranslated ex_db_two_rows 1 [(''de'', 1)]
        [ex_ref_checkout, ex_target_checkout [''de/app.ftl'']] ex_ref_checkout 7 = Inr d1
    \<and> sync_project ex_env_untranslated d1 1 [(''de'', 1)]
        [ex_ref_checkout, ex_target_checkout [''de/app.ftl'']] ex_ref_checkout 7 = Inr d2
    \<and> map (\<lambda>t. (t_string t, approved t, rejected t)) (db_translations d1)
          = [(''A'', False, True), (''B'', True, False)]
    \<and> map (\<lambda>t. (t_string t, approved t, rejected t)) (db_translations d2)
          = [(''A'', True, False), (''B'', False, True)]
    \<and> map action_type (db_action_logs d1) = [TRANSLATION_APPROVED, TRANSLATION_REJECTED]
    \<and> map action_type (db_action_logs d2)
          = [TRANSLATION_APPROVED, TRANSLATION_REJECTED,
             TRANSLATION_UNREJECTED, TRANSLATION_APPROVED, TRANSLATION_REJECTED]"
  by (simp add: sync_unfold update_db_translations_unfold ex_env_untranslated_def ex_db_two_rows_def)

end
